theory Spec2Isabelle
  imports Complex_Main
begin

section \<open>Types of the breathing application (types.ts)\<close>

datatype BreathPhase = Inhale | HoldIn | Exhale | HoldOut

datatype CueType = CueInhale | CueExhale | CueHold | CueFinish

datatype BreathingType = Pattern478 | PatternBox | PatternCalm

datatype ColorTheme = Warm | Cool | Neutral

datatype QualityTier = QAuto | QLow | QMedium | QHigh

datatype Language = En | Vi

datatype SoundPack = Musical | Bells | Breath | VoiceEn | VoiceVi | Voice12

datatype HapticStrength = Light | Medium | Heavy

record UserSettings =
  soundEnabled :: bool
  hapticEnabled :: bool
  hapticStrength :: HapticStrength
  theme :: ColorTheme
  quality :: QualityTier
  reduceMotion :: bool
  showTimer :: bool
  language :: Language
  soundPack :: SoundPack
  streak :: int
  lastBreathDate :: string

record SessionHistoryItem =
  id_item :: string
  timestamp :: int
  durationSec :: int
  patternId :: BreathingType
  cycles :: nat

text \<open>\<^verbatim>\<open>Record<BreathPhase, number>\<close>: one duration in seconds per phase.\<close>

record Timings =
  inhale :: real
  holdIn :: real
  exhale :: real
  holdOut :: real

fun timing :: "Timings \<Rightarrow> BreathPhase \<Rightarrow> real" where
  "timing t Inhale = inhale t"
| "timing t HoldIn = holdIn t"
| "timing t Exhale = exhale t"
| "timing t HoldOut = holdOut t"

record BreathPattern =
  id_pattern :: BreathingType
  label :: string
  tag :: string
  description :: string
  timings :: Timings
  colorTheme :: ColorTheme
  recommendedCycles :: "nat option"

fun BREATHING_PATTERNS :: "BreathingType \<Rightarrow> BreathPattern" where
  "BREATHING_PATTERNS Pattern478 =
     \<lparr>id_pattern = Pattern478, label = ''Relax'', tag = ''Sleep & Anxiety'',
      description = ''A natural tranquilizer for the nervous system.'',
      timings = \<lparr>inhale = 4, holdIn = 7, exhale = 8, holdOut = 0\<rparr>,
      colorTheme = Warm, recommendedCycles = Some 4\<rparr>"
| "BREATHING_PATTERNS PatternBox =
     \<lparr>id_pattern = PatternBox, label = ''Focus'', tag = ''Concentration'',
      description = ''Used by Navy SEALs to heighten performance.'',
      timings = \<lparr>inhale = 4, holdIn = 4, exhale = 4, holdOut = 4\<rparr>,
      colorTheme = Neutral, recommendedCycles = Some 6\<rparr>"
| "BREATHING_PATTERNS PatternCalm =
     \<lparr>id_pattern = PatternCalm, label = ''Balance'', tag = ''Coherence'',
      description = ''Restores balance to your heart rate variability.'',
      timings = \<lparr>inhale = 4, holdIn = 0, exhale = 6, holdOut = 0\<rparr>,
      colorTheme = Cool, recommendedCycles = Some 8\<rparr>"

section \<open>The session store (store.ts)\<close>

record SessionStats =
  stats_durationSec :: int
  cyclesCompleted :: nat
  patternLabel :: string
  stats_patternId :: BreathingType

record BreathState =
  isActive :: bool
  isPaused :: bool
  currentPattern :: BreathPattern
  phase :: BreathPhase
  cycleCount :: nat
  sessionStartTime :: int
  showSummary :: bool
  lastSessionStats :: "SessionStats option"
  hasSeenOnboarding :: bool
  userSettings :: UserSettings
  history :: "SessionHistoryItem list"

definition initialState :: BreathState where
  "initialState =
     \<lparr>isActive = False, isPaused = False, currentPattern = BREATHING_PATTERNS Pattern478,
      phase = Inhale, cycleCount = 0, sessionStartTime = 0, showSummary = False,
      lastSessionStats = None, hasSeenOnboarding = False,
      userSettings =
        \<lparr>soundEnabled = True, hapticEnabled = True, hapticStrength = Medium,
         theme = Neutral, quality = QAuto, reduceMotion = False, showTimer = True,
         language = En, soundPack = Musical, streak = 0, lastBreathDate = []\<rparr>,
      history = []\<rparr>"

text \<open>
  \<^verbatim>\<open>startSession\<close> reads the wall clock once (\<^verbatim>\<open>Date.now()\<close>, milliseconds) and
  looks the pattern up in the pattern table. The table is a parameter of
  \<open>startSessionWith\<close>; the store's action uses \<open>BREATHING_PATTERNS\<close>.
\<close>

definition startSessionWith ::
  "(BreathingType \<Rightarrow> BreathPattern) \<Rightarrow> BreathingType \<Rightarrow> int \<Rightarrow> BreathState \<Rightarrow> BreathState" where
  "startSessionWith patterns type now s =
     s\<lparr>isActive := True, isPaused := False, currentPattern := patterns type,
       phase := Inhale, cycleCount := 0, sessionStartTime := now, showSummary := False\<rparr>"

definition startSession :: "BreathingType \<Rightarrow> int \<Rightarrow> BreathState \<Rightarrow> BreathState" where
  "startSession = startSessionWith BREATHING_PATTERNS"

definition stopSession :: "BreathState \<Rightarrow> BreathState" where
  "stopSession s =
     s\<lparr>isActive := False, isPaused := False, cycleCount := 0, phase := Inhale,
       sessionStartTime := 0\<rparr>"

text \<open>Decimal rendering of a number, as \<^verbatim>\<open>Number.prototype.toString\<close> does for integers.\<close>

fun digitsOf :: "nat \<Rightarrow> string" where
  "digitsOf n =
     (if n < 10 then [char_of (48 + n)]
      else digitsOf (n div 10) @ [char_of (48 + n mod 10)])"

declare digitsOf.simps [simp del]

definition toString :: "int \<Rightarrow> string" where
  "toString i = (if i < 0 then CHR ''-'' # digitsOf (nat (- i)) else digitsOf (nat i))"

text \<open>
  What \<^verbatim>\<open>finishSession\<close> reads from its environment, in the order of the reads:
  \<^verbatim>\<open>Date.now()\<close> for the duration, \<^verbatim>\<open>Date.now()\<close> and the four digits
  \<^verbatim>\<open>Math.random().toString().slice(2, 6)\<close> for the item id, \<^verbatim>\<open>Date.now()\<close> for the
  timestamp, and the local dates of \<^verbatim>\<open>getTodayString()\<close> and \<^verbatim>\<open>getYesterdayString()\<close>
  (each from its own \<^verbatim>\<open>new Date()\<close>).
\<close>

record FinishEnv =
  nowDuration :: int
  nowId :: int
  randomDigits :: string
  nowTimestamp :: int
  today :: string
  yesterday :: string

definition finishDuration :: "FinishEnv \<Rightarrow> BreathState \<Rightarrow> int" where
  "finishDuration env state = (nowDuration env - sessionStartTime state) div 1000"

definition newItem :: "FinishEnv \<Rightarrow> BreathState \<Rightarrow> SessionHistoryItem" where
  "newItem env state =
     \<lparr>id_item = toString (nowId env) @ randomDigits env,
      timestamp = nowTimestamp env,
      durationSec = finishDuration env state,
      patternId = id_pattern (currentPattern state),
      cycles = cycleCount state\<rparr>"

definition finishHistory :: "FinishEnv \<Rightarrow> BreathState \<Rightarrow> SessionHistoryItem list" where
  "finishHistory env state =
     (if finishDuration env state > 10
      then take 100 (newItem env state # history state)
      else history state)"

definition finishStreak :: "FinishEnv \<Rightarrow> BreathState \<Rightarrow> int \<times> string" where
  "finishStreak env state =
     (let newStreak = streak (userSettings state);
          newLastDate = lastBreathDate (userSettings state)
      in if finishDuration env state > 30 then
           if newLastDate = today env then (newStreak, newLastDate)
           else if newLastDate = yesterday env then (newStreak + 1, today env)
           else (1, today env)
         else (newStreak, newLastDate))"

definition finishSession :: "FinishEnv \<Rightarrow> BreathState \<Rightarrow> BreathState" where
  "finishSession env state =
     state\<lparr>isActive := False, isPaused := False, sessionStartTime := 0, showSummary := True,
       history := finishHistory env state,
       userSettings := (userSettings state)
         \<lparr>streak := fst (finishStreak env state),
          lastBreathDate := snd (finishStreak env state)\<rparr>,
       lastSessionStats := Some
         \<lparr>stats_durationSec = finishDuration env state,
          cyclesCompleted = cycleCount state,
          patternLabel = label (currentPattern state),
          stats_patternId = id_pattern (currentPattern state)\<rparr>\<rparr>"

definition togglePause :: "BreathState \<Rightarrow> BreathState" where
  "togglePause s = s\<lparr>isPaused := \<not> isPaused s\<rparr>"

definition setPhase :: "BreathPhase \<Rightarrow> BreathState \<Rightarrow> BreathState" where
  "setPhase p s = s\<lparr>phase := p\<rparr>"

definition incrementCycle :: "BreathState \<Rightarrow> BreathState" where
  "incrementCycle s = s\<lparr>cycleCount := cycleCount s + 1\<rparr>"

definition completeOnboarding :: "BreathState \<Rightarrow> BreathState" where
  "completeOnboarding s = s\<lparr>hasSeenOnboarding := True\<rparr>"

definition closeSummary :: "BreathState \<Rightarrow> BreathState" where
  "closeSummary s = s\<lparr>showSummary := False\<rparr>"

definition clearHistory :: "BreathState \<Rightarrow> BreathState" where
  "clearHistory s = s\<lparr>history := []\<rparr>"

definition toggleSound :: "BreathState \<Rightarrow> BreathState" where
  "toggleSound s =
     s\<lparr>userSettings := (userSettings s)\<lparr>soundEnabled := \<not> soundEnabled (userSettings s)\<rparr>\<rparr>"

definition toggleHaptic :: "BreathState \<Rightarrow> BreathState" where
  "toggleHaptic s =
     s\<lparr>userSettings := (userSettings s)\<lparr>hapticEnabled := \<not> hapticEnabled (userSettings s)\<rparr>\<rparr>"

definition setHapticStrength :: "HapticStrength \<Rightarrow> BreathState \<Rightarrow> BreathState" where
  "setHapticStrength v s = s\<lparr>userSettings := (userSettings s)\<lparr>hapticStrength := v\<rparr>\<rparr>"

definition setTheme :: "ColorTheme \<Rightarrow> BreathState \<Rightarrow> BreathState" where
  "setTheme v s = s\<lparr>userSettings := (userSettings s)\<lparr>theme := v\<rparr>\<rparr>"

definition setQuality :: "QualityTier \<Rightarrow> BreathState \<Rightarrow> BreathState" where
  "setQuality v s = s\<lparr>userSettings := (userSettings s)\<lparr>quality := v\<rparr>\<rparr>"

definition setReduceMotion :: "bool \<Rightarrow> BreathState \<Rightarrow> BreathState" where
  "setReduceMotion v s = s\<lparr>userSettings := (userSettings s)\<lparr>reduceMotion := v\<rparr>\<rparr>"

definition toggleTimer :: "BreathState \<Rightarrow> BreathState" where
  "toggleTimer s =
     s\<lparr>userSettings := (userSettings s)\<lparr>showTimer := \<not> showTimer (userSettings s)\<rparr>\<rparr>"

definition setLanguage :: "Language \<Rightarrow> BreathState \<Rightarrow> BreathState" where
  "setLanguage v s = s\<lparr>userSettings := (userSettings s)\<lparr>language := v\<rparr>\<rparr>"

definition setSoundPack :: "SoundPack \<Rightarrow> BreathState \<Rightarrow> BreathState" where
  "setSoundPack v s = s\<lparr>userSettings := (userSettings s)\<lparr>soundPack := v\<rparr>\<rparr>"

text \<open>Every action the store exposes, with the environment it reads.\<close>

datatype Action =
    StartSession BreathingType int
  | StopSession
  | FinishSession FinishEnv
  | TogglePause
  | SetPhase BreathPhase
  | IncrementCycle
  | CompleteOnboarding
  | CloseSummary
  | ClearHistory
  | ToggleSound
  | ToggleHaptic
  | SetHapticStrength HapticStrength
  | SetTheme ColorTheme
  | SetQuality QualityTier
  | SetReduceMotion bool
  | ToggleTimer
  | SetLanguage Language
  | SetSoundPack SoundPack

fun dispatch :: "Action \<Rightarrow> BreathState \<Rightarrow> BreathState" where
  "dispatch (StartSession type now) s = startSession type now s"
| "dispatch StopSession s = stopSession s"
| "dispatch (FinishSession env) s = finishSession env s"
| "dispatch TogglePause s = togglePause s"
| "dispatch (SetPhase p) s = setPhase p s"
| "dispatch IncrementCycle s = incrementCycle s"
| "dispatch CompleteOnboarding s = completeOnboarding s"
| "dispatch CloseSummary s = closeSummary s"
| "dispatch ClearHistory s = clearHistory s"
| "dispatch ToggleSound s = toggleSound s"
| "dispatch ToggleHaptic s = toggleHaptic s"
| "dispatch (SetHapticStrength v) s = setHapticStrength v s"
| "dispatch (SetTheme v) s = setTheme v s"
| "dispatch (SetQuality v) s = setQuality v s"
| "dispatch (SetReduceMotion v) s = setReduceMotion v s"
| "dispatch ToggleTimer s = toggleTimer s"
| "dispatch (SetLanguage v) s = setLanguage v s"
| "dispatch (SetSoundPack v) s = setSoundPack v s"

section \<open>The phase machine (services/phaseMachine.ts)\<close>

datatype EngineError = InvalidPattern

text \<open>The cyclic order of the phases: inhale, holdIn, exhale, holdOut, inhale.\<close>

fun cyclicSuccessor :: "BreathPhase \<Rightarrow> BreathPhase" where
  "cyclicSuccessor Inhale = HoldIn"
| "cyclicSuccessor HoldIn = Exhale"
| "cyclicSuccessor Exhale = HoldOut"
| "cyclicSuccessor HoldOut = Inhale"

text \<open>
  Modelled from the spec: \<^verbatim>\<open>isPatternValid\<close> of services/phaseMachine.ts, whose source
  is not available. The spec: true iff at least one phase duration is greater than 0.
\<close>

definition isPatternValid :: "BreathPattern \<Rightarrow> bool" where
  "isPatternValid pattern \<longleftrightarrow>
     timing (timings pattern) Inhale > 0 \<or> timing (timings pattern) HoldIn > 0 \<or>
     timing (timings pattern) Exhale > 0 \<or> timing (timings pattern) HoldOut > 0"

text \<open>
  Modelled from the spec: \<^verbatim>\<open>isCycleBoundary\<close> of services/phaseMachine.ts, whose source
  is not available. The spec: true iff the phase is inhale.
\<close>

definition isCycleBoundary :: "BreathPhase \<Rightarrow> bool" where
  "isCycleBoundary p \<longleftrightarrow> p = Inhale"

text \<open>
  Modelled from the spec: \<^verbatim>\<open>nextPhaseSkipZero\<close> of services/phaseMachine.ts, whose
  source is not available. The spec: search forward through the cycle for the next phase
  with duration greater than 0, never halting on a zero-duration phase, without looping
  forever when all durations are zero; fail, signalling an invalid pattern, if no phase
  has positive duration. The search looks at the four phases that follow the current one
  in the cycle, the current phase itself last.
\<close>

fun searchForward :: "nat \<Rightarrow> BreathPhase \<Rightarrow> BreathPattern \<Rightarrow> EngineError + BreathPhase" where
  "searchForward 0 p pattern = Inl InvalidPattern"
| "searchForward (Suc n) p pattern =
     (if timing (timings pattern) (cyclicSuccessor p) > 0 then Inr (cyclicSuccessor p)
      else searchForward n (cyclicSuccessor p) pattern)"

definition nextPhaseSkipZero :: "BreathPhase \<Rightarrow> BreathPattern \<Rightarrow> EngineError + BreathPhase" where
  "nextPhaseSkipZero current pattern = searchForward 4 current pattern"

section \<open>The engine (hooks/useBreathEngine.ts)\<close>

text \<open>The mutable refs of the hook. Times are \<^verbatim>\<open>performance.now()\<close> readings in milliseconds.\<close>

record EngineRefs =
  settingsRef :: UserSettings
  startTimeRef :: real
  pausedAtRef :: real
  rafIdRef :: "nat option"
  wasHiddenRef :: bool
  progressRef :: real

text \<open>
  What the engine does to the outside, in program order: calls of the store's actions,
  the two cue calls of \<^verbatim>\<open>triggerCuesForPhase\<close> with their arguments, and the requests
  and cancellations of animation frames.
\<close>

datatype Event =
    EvIncrementCycle
  | EvSetPhase BreathPhase
  | EvHapticPhase bool HapticStrength CueType
  | EvPlayCue CueType bool SoundPack real Language
  | EvRequestFrame nat
  | EvCancelFrame nat

text \<open>The values a render of the hook selects from the store and its callbacks close over.\<close>

record Closure =
  c_isActive :: bool
  c_isPaused :: bool
  c_phase :: BreathPhase
  c_currentPattern :: BreathPattern

text \<open>
  The store, the refs and the log, together with what the browser holds for the hook:
  \<open>frames\<close> are the pending animation-frame callbacks, each with its id and the render
  whose \<^verbatim>\<open>loop\<close> was passed to \<^verbatim>\<open>requestAnimationFrame\<close>; \<open>visHandler\<close> is the render
  whose \<^verbatim>\<open>onVis\<close> is the registered \<^verbatim>\<open>visibilitychange\<close> listener.
\<close>

record World =
  store :: BreathState
  refs :: EngineRefs
  events :: "Event list"
  frames :: "(nat \<times> Closure) list"
  visHandler :: "Closure option"

definition render :: "BreathState \<Rightarrow> Closure" where
  "render s =
     \<lparr>c_isActive = isActive s, c_isPaused = isPaused s, c_phase = phase s,
      c_currentPattern = currentPattern s\<rparr>"

definition emit :: "Event list \<Rightarrow> World \<Rightarrow> World" where
  "emit es w = w\<lparr>events := events w @ es\<rparr>"

definition updRefs :: "(EngineRefs \<Rightarrow> EngineRefs) \<Rightarrow> World \<Rightarrow> World" where
  "updRefs f w = w\<lparr>refs := f (refs w)\<rparr>"

definition callIncrementCycle :: "World \<Rightarrow> World" where
  "callIncrementCycle w = emit [EvIncrementCycle] (w\<lparr>store := incrementCycle (store w)\<rparr>)"

definition callSetPhase :: "BreathPhase \<Rightarrow> World \<Rightarrow> World" where
  "callSetPhase p w = emit [EvSetPhase p] (w\<lparr>store := setPhase p (store w)\<rparr>)"

definition syncSettings :: "World \<Rightarrow> World" where
  "syncSettings w = updRefs (\<lambda>r. r\<lparr>settingsRef := userSettings (store w)\<rparr>) w"

fun phaseToCueType :: "BreathPhase \<Rightarrow> CueType" where
  "phaseToCueType HoldIn = CueHold"
| "phaseToCueType HoldOut = CueHold"
| "phaseToCueType Inhale = CueInhale"
| "phaseToCueType Exhale = CueExhale"

text \<open>
  \<^verbatim>\<open>cancelAnimationFrame(i)\<close> drops the pending callback with id \<open>i\<close>, if there is one.
  \<^verbatim>\<open>rafIdRef.current = requestAnimationFrame(loop)\<close> queues the \<^verbatim>\<open>loop\<close> of render \<open>c\<close>
  under the id \<open>rid\<close> the browser returns and stores the id.
\<close>

definition cancelAnimationFrame :: "nat \<Rightarrow> World \<Rightarrow> World" where
  "cancelAnimationFrame i w =
     emit [EvCancelFrame i] (w\<lparr>frames := filter (\<lambda>f. fst f \<noteq> i) (frames w)\<rparr>)"

definition stopRaf :: "World \<Rightarrow> World" where
  "stopRaf w =
     (case rafIdRef (refs w) of
        None \<Rightarrow> w
      | Some i \<Rightarrow> updRefs (\<lambda>r. r\<lparr>rafIdRef := None\<rparr>) (cancelAnimationFrame i w))"

definition requestAnimationFrame :: "nat \<Rightarrow> Closure \<Rightarrow> World \<Rightarrow> World" where
  "requestAnimationFrame rid c w =
     updRefs (\<lambda>r. r\<lparr>rafIdRef := Some rid\<rparr>)
       (emit [EvRequestFrame rid] (w\<lparr>frames := frames w @ [(rid, c)]\<rparr>))"

definition triggerCuesForPhase :: "BreathPhase \<Rightarrow> real \<Rightarrow> World \<Rightarrow> World" where
  "triggerCuesForPhase p duration w =
     (let st = settingsRef (refs w); cueType = phaseToCueType p
      in emit [EvHapticPhase (hapticEnabled st) (hapticStrength st) cueType,
               EvPlayCue cueType (soundEnabled st) (soundPack st) duration (language st)] w)"

text \<open>
  The handler of \<^verbatim>\<open>visibilitychange\<close> that render \<open>c\<close> defines: \<open>hidden\<close> is
  \<^verbatim>\<open>document.hidden\<close>, \<open>perfNow\<close> the reading of \<^verbatim>\<open>performance.now()\<close>, \<open>rid\<close> the id
  \<^verbatim>\<open>requestAnimationFrame\<close> returns. The \<^verbatim>\<open>loop\<close> it passes on is the one of its own
  render.
\<close>

definition onVis :: "Closure \<Rightarrow> bool \<Rightarrow> real \<Rightarrow> nat \<Rightarrow> World \<Rightarrow> World" where
  "onVis c hidden perfNow rid w =
     (if hidden then
        stopRaf (updRefs (\<lambda>r. r\<lparr>wasHiddenRef := True, pausedAtRef := perfNow\<rparr>) w)
      else if wasHiddenRef (refs w) \<and> c_isActive c \<and> \<not> c_isPaused c then
        requestAnimationFrame rid c
          (updRefs (\<lambda>r. r\<lparr>wasHiddenRef := False, startTimeRef := perfNow, progressRef := 0\<rparr>) w)
      else w)"

text \<open>The progress fraction a tick computes: \<^verbatim>\<open>Math.max(0, Math.min(elapsedSec / denom, 1))\<close>.\<close>

definition elapsedSec :: "real \<Rightarrow> World \<Rightarrow> real" where
  "elapsedSec now w = (now - startTimeRef (refs w)) / 1000"

definition denom :: "real \<Rightarrow> real" where
  "denom duration = max duration (1 / 1000000)"

definition tickProgress :: "real \<Rightarrow> real \<Rightarrow> real" where
  "tickProgress elapsed duration = max 0 (min (elapsed / denom duration) 1)"

text \<open>
  One animation frame, running the \<^verbatim>\<open>loop\<close> of render \<open>c\<close>: \<open>now\<close> is the timestamp
  the frame callback receives, \<open>perfNow\<close> the reading of \<^verbatim>\<open>performance.now()\<close> at the
  clock reset. The callback reads phase and pattern from its render, writes to the store
  and the refs, and requests itself again. A failure of \<^verbatim>\<open>nextPhaseSkipZero\<close> would leave
  the callback as an exception: \<open>Inl\<close>.
\<close>

definition loop :: "Closure \<Rightarrow> real \<Rightarrow> real \<Rightarrow> nat \<Rightarrow> World \<Rightarrow> EngineError + World" where
  "loop c now perfNow rid w =
     (let duration = timing (timings (c_currentPattern c)) (c_phase c) in
      if \<not> isPatternValid (c_currentPattern c) then
        Inr (stopRaf (updRefs (\<lambda>r. r\<lparr>progressRef := 0\<rparr>) w))
      else
        let w1 = updRefs (\<lambda>r. r\<lparr>progressRef := tickProgress (elapsedSec now w) duration\<rparr>) w
        in if elapsedSec now w \<ge> duration then
             (case nextPhaseSkipZero (c_phase c) (c_currentPattern c) of
                Inl e \<Rightarrow> Inl e
              | Inr next \<Rightarrow>
                  let nextDuration = timing (timings (c_currentPattern c)) next;
                      w2 = (if isCycleBoundary next then callIncrementCycle w1 else w1);
                      w3 = callSetPhase next w2;
                      w4 = updRefs (\<lambda>r. r\<lparr>startTimeRef := perfNow, progressRef := 0\<rparr>) w3;
                      w5 = triggerCuesForPhase next nextDuration w4
                  in Inr (requestAnimationFrame rid c w5))
           else Inr (requestAnimationFrame rid c w1))"

text \<open>
  The effect that manages the loop, run after a render in which \<^verbatim>\<open>isActive\<close>,
  \<^verbatim>\<open>isPaused\<close>, \<^verbatim>\<open>phase\<close> or \<^verbatim>\<open>currentPattern\<close> changed. Its cleanup, registered by
  the running branch only, is \<open>stopRaf\<close>.
\<close>

definition mainEffect :: "Closure \<Rightarrow> real \<Rightarrow> nat \<Rightarrow> World \<Rightarrow> World" where
  "mainEffect c perfNow rid w =
     (if \<not> c_isActive c then
        updRefs (\<lambda>r. r\<lparr>progressRef := 0, startTimeRef := 0, pausedAtRef := 0\<rparr>) (stopRaf w)
      else if c_isPaused c then
        stopRaf (updRefs (\<lambda>r. r\<lparr>pausedAtRef := perfNow\<rparr>) w)
      else
        requestAnimationFrame rid c
          (if pausedAtRef (refs w) > 0 \<and> startTimeRef (refs w) > 0 then
             updRefs (\<lambda>r. r\<lparr>startTimeRef := startTimeRef r + (perfNow - pausedAtRef r),
                              pausedAtRef := 0\<rparr>) w
           else
             triggerCuesForPhase (c_phase c)
               (timing (timings (c_currentPattern c)) (c_phase c))
               (updRefs (\<lambda>r. r\<lparr>startTimeRef := perfNow, progressRef := 0\<rparr>) w)))"

definition mainEffectCleanup :: "World \<Rightarrow> World" where
  "mainEffectCleanup = stopRaf"

text \<open>
  Everything that can happen to the hook: the browser runs the pending animation-frame
  callback with a given id (nothing happens if that id is not pending); the main effect
  (dependencies \<^verbatim>\<open>isActive\<close>, \<^verbatim>\<open>isPaused\<close>, \<^verbatim>\<open>phase\<close>, \<^verbatim>\<open>currentPattern\<close>) or its
  cleanup runs; the visibility effect (dependencies \<^verbatim>\<open>isActive\<close>, \<^verbatim>\<open>isPaused\<close> only)
  registers the \<^verbatim>\<open>onVis\<close> of the latest render; the page is hidden or shown, which runs
  the registered \<^verbatim>\<open>onVis\<close>; the settings effect copies the settings into \<open>settingsRef\<close>;
  an action of the store is dispatched. An effect runs with the values of the latest
  render; a frame callback and the visibility handler run with the values of the render
  that created them.
\<close>

datatype Input =
    Frame nat real real nat
  | RunMainEffect real nat
  | RunCleanup
  | RunVisEffect
  | VisibilityChange bool real nat
  | RunSettingsEffect
  | Dispatch Action

fun step :: "Input \<Rightarrow> World \<Rightarrow> EngineError + World" where
  "step (Frame i now perfNow rid) w =
     (case map_of (frames w) i of
        None \<Rightarrow> Inr w
      | Some c \<Rightarrow> loop c now perfNow rid (w\<lparr>frames := filter (\<lambda>f. fst f \<noteq> i) (frames w)\<rparr>))"
| "step (RunMainEffect perfNow rid) w = Inr (mainEffect (render (store w)) perfNow rid w)"
| "step RunCleanup w = Inr (mainEffectCleanup w)"
| "step RunVisEffect w = Inr (w\<lparr>visHandler := Some (render (store w))\<rparr>)"
| "step (VisibilityChange hidden perfNow rid) w =
     (case visHandler w of
        None \<Rightarrow> Inr w
      | Some c \<Rightarrow> Inr (onVis c hidden perfNow rid w))"
| "step RunSettingsEffect w = Inr (syncSettings w)"
| "step (Dispatch a) w = Inr (w\<lparr>store := dispatch a (store w)\<rparr>)"

fun run :: "Input list \<Rightarrow> World \<Rightarrow> EngineError + World" where
  "run [] w = Inr w"
| "run (i # ins) w = (case step i w of Inl e \<Rightarrow> Inl e | Inr w' \<Rightarrow> run ins w')"

text \<open>
  The inputs of one session as the application produces them: the application never calls
  \<^verbatim>\<open>setPhase\<close>, \<^verbatim>\<open>incrementCycle\<close> or \<^verbatim>\<open>stopSession\<close> itself (the engine calls the
  first two from its frame callback), and \<^verbatim>\<open>startSession\<close> begins another session.
\<close>

fun withinSession :: "Input \<Rightarrow> bool" where
  "withinSession (Dispatch (StartSession type now)) = False"
| "withinSession (Dispatch StopSession) = False"
| "withinSession (Dispatch IncrementCycle) = False"
| "withinSession (Dispatch (SetPhase p)) = False"
| "withinSession i = True"

text \<open>
  The refs as \<^verbatim>\<open>useRef\<close> initialises them, on the store's initial state, before the
  first effects have run: no frame is pending and no listener is registered.
\<close>

definition initialRefs :: "UserSettings \<Rightarrow> EngineRefs" where
  "initialRefs st =
     \<lparr>settingsRef = st, startTimeRef = 0, pausedAtRef = 0, rafIdRef = None,
      wasHiddenRef = False, progressRef = 0\<rparr>"

definition initialWorld :: World where
  "initialWorld =
     \<lparr>store = initialState, refs = initialRefs (userSettings initialState), events = [],
      frames = [], visHandler = None\<rparr>"

text \<open>The events a run adds to the log, and the order of two events in a list.\<close>

definition newEvents :: "World \<Rightarrow> World \<Rightarrow> Event list" where
  "newEvents w w' = drop (length (events w)) (events w')"

fun precedes :: "Event \<Rightarrow> Event \<Rightarrow> Event list \<Rightarrow> bool" where
  "precedes a b [] = False"
| "precedes a b (e # es) = (if e = a then b \<in> set es else precedes a b es)"

fun isCue :: "Event \<Rightarrow> bool" where
  "isCue (EvHapticPhase en st cue) = True"
| "isCue (EvPlayCue cue en pack d lang) = True"
| "isCue e = False"

text \<open>The phase that the pending frame callback with id \<open>i\<close> closes over.\<close>

definition pendingPhase :: "nat \<Rightarrow> World \<Rightarrow> BreathPhase option" where
  "pendingPhase i w = map_option c_phase (map_of (frames w) i)"

subsection \<open>Sessions as the application produces them\<close>

text \<open>
  The input sequences below follow the schedule of the hook's effects. On mount the
  visibility effect and the main effect run. After a render in which a dependency of an
  effect changed, the cleanup of that effect's last run comes first, then the effect: the
  main effect after a change of \<^verbatim>\<open>isActive\<close>, \<^verbatim>\<open>isPaused\<close>, \<^verbatim>\<open>phase\<close> or
  \<^verbatim>\<open>currentPattern\<close>, with a cleanup only when its last run took the running branch; the
  visibility effect after a change of \<^verbatim>\<open>isActive\<close> or \<^verbatim>\<open>isPaused\<close> only.
\<close>

text \<open>
  Mount, then start a session on the calm pattern (inhale 4 s, exhale 6 s, no holds): the
  clock starts at 1000 and the frame at 5000 ends the inhale and changes the phase to
  exhale; the render that follows re-runs the main effect.
\<close>

definition phaseChangeScenario :: "Input list" where
  "phaseChangeScenario =
     [RunVisEffect, RunMainEffect 100 0,
      Dispatch (StartSession PatternCalm 1700000000000), RunVisEffect, RunMainEffect 1000 1,
      Frame 1 5000 5001 2,
      RunCleanup, RunMainEffect 5002 3]"

text \<open>
  The session goes on: it is paused at 7000, during the exhale, and resumed at 8000, so
  the visibility effect registers the \<^verbatim>\<open>onVis\<close> of a render whose phase is exhale. The
  frame at 12002 ends the exhale: the phase becomes inhale and the first cycle is counted;
  the main effect re-runs, the visibility effect does not. The page is hidden at 13000
  and shown at 20000: the soft resume requests frame 9. That frame runs at 23000 and
  requests frame 10.
\<close>

definition staleFrameScenario :: "Input list" where
  "staleFrameScenario =
     phaseChangeScenario @
     [Dispatch TogglePause, RunCleanup, RunVisEffect, RunMainEffect 7000 4,
      Dispatch TogglePause, RunVisEffect, RunMainEffect 8000 5,
      Frame 5 12002 12003 6,
      RunCleanup, RunMainEffect 12004 7,
      VisibilityChange True 13000 8,
      VisibilityChange False 20000 9,
      Frame 9 23000 23000 10]"

text \<open>
  Mount, then start a session on the box pattern (four phases of 4 s): the clock starts
  at 1000 and the frame at 3000 sets the progress fraction to one half. The session is
  paused at 3000.
\<close>

definition pausedScenario :: "Input list" where
  "pausedScenario =
     [RunVisEffect, RunMainEffect 100 0,
      Dispatch (StartSession PatternBox 1700000000000), RunVisEffect, RunMainEffect 1000 1,
      Frame 1 3000 3000 2,
      Dispatch TogglePause, RunCleanup, RunVisEffect, RunMainEffect 3000 3]"

text \<open>While paused the page is hidden at 4000 and shown at 5000; the session is resumed at 9000.\<close>

definition pauseHideResumeScenario :: "Input list" where
  "pauseHideResumeScenario =
     pausedScenario @
     [VisibilityChange True 4000 4,
      VisibilityChange False 5000 4,
      Dispatch TogglePause, RunVisEffect, RunMainEffect 9000 5]"

section \<open>Shared facts\<close>

lemmas finish_defs =
  finishSession_def finishHistory_def finishStreak_def finishDuration_def newItem_def

lemmas action_defs =
  startSession_def startSessionWith_def stopSession_def togglePause_def setPhase_def
  incrementCycle_def completeOnboarding_def closeSummary_def clearHistory_def toggleSound_def
  toggleHaptic_def setHapticStrength_def setTheme_def setQuality_def setReduceMotion_def
  toggleTimer_def setLanguage_def setSoundPack_def

lemmas engine_defs =
  emit_def updRefs_def callIncrementCycle_def callSetPhase_def stopRaf_def
  cancelAnimationFrame_def requestAnimationFrame_def triggerCuesForPhase_def

lemma dispatch_history_other:
  "a \<noteq> ClearHistory \<Longrightarrow> \<forall>env. a \<noteq> FinishSession env \<Longrightarrow> history (dispatch a s) = history s"
  by (cases a) (simp_all add: action_defs)

lemma nextPhaseSkipZero_first_positive:
  assumes "isPatternValid pat"
  shows "\<exists>k\<in>{1..4}. nextPhaseSkipZero cur pat = Inr ((cyclicSuccessor ^^ k) cur) \<and>
           timing (timings pat) ((cyclicSuccessor ^^ k) cur) > 0 \<and>
           (\<forall>j\<in>{1..<k}. \<not> timing (timings pat) ((cyclicSuccessor ^^ j) cur) > 0)"
proof -
  let ?d = "\<lambda>j. timing (timings pat) ((cyclicSuccessor ^^ j) cur)"
  let ?P = "\<lambda>k. nextPhaseSkipZero cur pat = Inr ((cyclicSuccessor ^^ k) cur) \<and>
           ?d k > 0 \<and> (\<forall>j\<in>{1..<k}. \<not> ?d j > 0)"
  have some: "?d 1 > 0 \<or> ?d 2 > 0 \<or> ?d 3 > 0 \<or> ?d 4 > 0"
    using assms by (cases cur) (auto simp: isPatternValid_def eval_nat_numeral)
  have unfold: "nextPhaseSkipZero cur pat =
     (if ?d 1 > 0 then Inr ((cyclicSuccessor ^^ 1) cur)
      else if ?d 2 > 0 then Inr ((cyclicSuccessor ^^ 2) cur)
      else if ?d 3 > 0 then Inr ((cyclicSuccessor ^^ 3) cur)
      else if ?d 4 > 0 then Inr ((cyclicSuccessor ^^ 4) cur)
      else Inl InvalidPattern)"
    by (simp add: nextPhaseSkipZero_def eval_nat_numeral)
  have lt2: "{Suc 0..<2} = {Suc 0}" by auto
  have lt3: "{Suc 0..<3} = {Suc 0, 2}" by auto
  have lt4: "{Suc 0..<4} = {Suc 0, 2, 3}" by auto
  consider (a) "?d 1 > 0" | (b) "\<not> ?d 1 > 0" "?d 2 > 0"
    | (c) "\<not> ?d 1 > 0" "\<not> ?d 2 > 0" "?d 3 > 0"
    | (d) "\<not> ?d 1 > 0" "\<not> ?d 2 > 0" "\<not> ?d 3 > 0" "?d 4 > 0"
    using some by blast
  then show ?thesis
  proof cases
    case a
    then have "?P 1" using unfold by simp
    then show ?thesis by (intro bexI [of _ 1]) simp_all
  next
    case b
    then have "?P 2" using unfold by (simp add: lt2)
    then show ?thesis by (intro bexI [of _ 2]) simp_all
  next
    case c
    then have "?P 3" using unfold by (simp add: lt3)
    then show ?thesis by (intro bexI [of _ 3]) simp_all
  next
    case d
    then have "?P 4" using unfold by (simp add: lt4)
    then show ?thesis by (intro bexI [of _ 4]) simp_all
  qed
qed

lemma nextPhaseSkipZero_valid:
  "isPatternValid pat \<Longrightarrow> \<exists>q. nextPhaseSkipZero cur pat = Inr q"
  using nextPhaseSkipZero_first_positive [of pat cur] by blast

lemma nextPhaseSkipZero_single:
  "timing (timings pat) cur > 0 \<Longrightarrow> \<forall>p. p \<noteq> cur \<longrightarrow> \<not> timing (timings pat) p > 0 \<Longrightarrow>
   nextPhaseSkipZero cur pat = Inr cur"
  by (cases cur) (auto simp: nextPhaseSkipZero_def eval_nat_numeral)

lemma nextPhaseSkipZero_invalid:
  "\<not> isPatternValid pat \<Longrightarrow> nextPhaseSkipZero cur pat = Inl InvalidPattern"
  by (cases cur) (auto simp: nextPhaseSkipZero_def isPatternValid_def eval_nat_numeral)

lemma loop_invalid:
  "\<not> isPatternValid (c_currentPattern c) \<Longrightarrow>
   loop c now perfNow rid w = Inr (stopRaf (updRefs (\<lambda>r. r\<lparr>progressRef := 0\<rparr>) w))"
  by (simp add: loop_def)

lemma loop_stay:
  "isPatternValid (c_currentPattern c) \<Longrightarrow>
   \<not> elapsedSec now w \<ge> timing (timings (c_currentPattern c)) (c_phase c) \<Longrightarrow>
   loop c now perfNow rid w =
     Inr (requestAnimationFrame rid c (updRefs (\<lambda>r. r\<lparr>progressRef :=
        tickProgress (elapsedSec now w) (timing (timings (c_currentPattern c)) (c_phase c))\<rparr>) w))"
  by (simp add: loop_def Let_def)

lemma loop_cross:
  "isPatternValid (c_currentPattern c) \<Longrightarrow>
   elapsedSec now w \<ge> timing (timings (c_currentPattern c)) (c_phase c) \<Longrightarrow>
   nextPhaseSkipZero (c_phase c) (c_currentPattern c) = Inr next \<Longrightarrow>
   loop c now perfNow rid w =
     Inr (requestAnimationFrame rid c
       (triggerCuesForPhase next (timing (timings (c_currentPattern c)) next)
         (updRefs (\<lambda>r. r\<lparr>startTimeRef := perfNow, progressRef := 0\<rparr>)
           (callSetPhase next
             ((if isCycleBoundary next then callIncrementCycle else (\<lambda>w. w))
               (updRefs (\<lambda>r. r\<lparr>progressRef :=
                  tickProgress (elapsedSec now w)
                    (timing (timings (c_currentPattern c)) (c_phase c))\<rparr>) w))))))"
  by (simp add: loop_def Let_def)

lemma loop_cross_events:
  assumes "isPatternValid (c_currentPattern c)"
    and "elapsedSec now w \<ge> timing (timings (c_currentPattern c)) (c_phase c)"
    and "nextPhaseSkipZero (c_phase c) (c_currentPattern c) = Inr next"
    and "loop c now perfNow rid w = Inr w'"
  shows "events w' = events w @ (if next = Inhale then [EvIncrementCycle] else []) @
           [EvSetPhase next,
            EvHapticPhase (hapticEnabled (settingsRef (refs w))) (hapticStrength (settingsRef (refs w)))
              (phaseToCueType next),
            EvPlayCue (phaseToCueType next) (soundEnabled (settingsRef (refs w)))
              (soundPack (settingsRef (refs w))) (timing (timings (c_currentPattern c)) next)
              (language (settingsRef (refs w))),
            EvRequestFrame rid]"
    and "store w' = (store w)\<lparr>cycleCount := cycleCount (store w) + (if next = Inhale then 1 else 0),
            phase := next\<rparr>"
    and "refs w' = (refs w)\<lparr>startTimeRef := perfNow, progressRef := 0, rafIdRef := Some rid\<rparr>"
  using assms(4) unfolding loop_cross [OF assms(1-3)]
  by (auto simp: engine_defs isCycleBoundary_def Let_def setPhase_def incrementCycle_def)

lemma loop_total: "\<exists>w'. loop c now perfNow rid w = Inr w'"
proof (cases "isPatternValid (c_currentPattern c)")
  case False
  then show ?thesis by (simp add: loop_invalid)
next
  case True
  then obtain q where "nextPhaseSkipZero (c_phase c) (c_currentPattern c) = Inr q"
    using nextPhaseSkipZero_valid by blast
  with True show ?thesis by (simp add: loop_def Let_def)
qed

lemma tickProgress_bounds: "0 \<le> tickProgress e d \<and> tickProgress e d \<le> 1"
  by (simp add: tickProgress_def)

lemma denom_pos: "0 < denom d"
  by (simp add: denom_def max_def)

lemma dispatch_cycleCount:
  "withinSession (Dispatch a) \<Longrightarrow> cycleCount (dispatch a s) = cycleCount s"
  by (cases a) (simp_all add: action_defs finishSession_def)

lemma loop_cycleCount:
  assumes "loop c now perfNow rid w = Inr w'"
  shows "\<exists>es. events w' = events w @ es \<and>
           cycleCount (store w') = cycleCount (store w) + count_list es (EvSetPhase Inhale)"
proof (cases "isPatternValid (c_currentPattern c)")
  case False
  with assms have "w' = stopRaf (updRefs (\<lambda>r. r\<lparr>progressRef := 0\<rparr>) w)"
    by (simp add: loop_invalid)
  then show ?thesis by (simp add: engine_defs split: option.splits)
next
  case valid: True
  show ?thesis
  proof (cases "elapsedSec now w \<ge> timing (timings (c_currentPattern c)) (c_phase c)")
    case False
    with valid assms show ?thesis by (auto simp: loop_stay engine_defs)
  next
    case True
    obtain q where n: "nextPhaseSkipZero (c_phase c) (c_currentPattern c) = Inr q"
      using valid nextPhaseSkipZero_valid by blast
    from loop_cross_events(1,2) [OF valid True n assms] show ?thesis
      by (cases q) simp_all
  qed
qed

lemma step_cycleCount:
  assumes "step i w = Inr w'" and "withinSession i"
  shows "\<exists>es. events w' = events w @ es \<and>
           cycleCount (store w') = cycleCount (store w) + count_list es (EvSetPhase Inhale)"
proof (cases i)
  case (Frame i now perfNow rid)
  show ?thesis
  proof (cases "map_of (frames w) i")
    case None
    with Frame assms show ?thesis by simp
  next
    case (Some c)
    with Frame assms have
      "loop c now perfNow rid (w\<lparr>frames := filter (\<lambda>f. fst f \<noteq> i) (frames w)\<rparr>) = Inr w'"
      by simp
    from loop_cycleCount [OF this] show ?thesis by simp
  qed
next
  case (RunMainEffect perfNow rid)
  with assms show ?thesis
    by (auto simp: mainEffect_def engine_defs Let_def split: option.splits)
next
  case RunCleanup
  with assms show ?thesis
    by (auto simp: mainEffectCleanup_def engine_defs split: option.splits)
next
  case (VisibilityChange hidden perfNow rid)
  with assms show ?thesis
    by (auto simp: onVis_def engine_defs split: option.splits)
next
  case RunSettingsEffect
  with assms show ?thesis by (auto simp: syncSettings_def engine_defs)
next
  case RunVisEffect
  with assms show ?thesis by auto
next
  case (Dispatch a)
  with assms show ?thesis using dispatch_cycleCount [of a "store w"] by auto
qed

lemma step_total: "\<exists>w'. step i w = Inr w'"
  by (cases i) (simp_all add: loop_total split: option.splits)

lemma run_total: "\<exists>w'. run ins w = Inr w'"
proof (induction ins arbitrary: w)
  case Nil
  then show ?case by simp
next
  case (Cons i ins)
  obtain w1 where "step i w = Inr w1" using step_total by blast
  with Cons show ?case by simp
qed

lemma run_cycleCount:
  assumes "run ins w = Inr w'" and "\<forall>i\<in>set ins. withinSession i"
  shows "\<exists>es. events w' = events w @ es \<and>
           cycleCount (store w') = cycleCount (store w) + count_list es (EvSetPhase Inhale)"
  using assms
proof (induction ins arbitrary: w)
  case Nil
  then show ?case by simp
next
  case (Cons i ins)
  obtain w1 where s1: "step i w = Inr w1" using step_total by blast
  with Cons.prems have r: "run ins w1 = Inr w'" by simp
  from step_cycleCount [OF s1] Cons.prems obtain es1 where
    e1: "events w1 = events w @ es1"
      "cycleCount (store w1) = cycleCount (store w) + count_list es1 (EvSetPhase Inhale)"
    by auto
  from Cons.IH [OF r] Cons.prems obtain es2 where
    e2: "events w' = events w1 @ es2"
      "cycleCount (store w') = cycleCount (store w1) + count_list es2 (EvSetPhase Inhale)"
    by auto
  have "events w' = events w @ (es1 @ es2)" using e1 e2 by simp
  moreover have "cycleCount (store w') =
      cycleCount (store w) + count_list (es1 @ es2) (EvSetPhase Inhale)"
    using e1 e2 by simp
  ultimately show ?case by blast
qed

lemma run_append:
  "run (xs @ ys) w = (case run xs w of Inl e \<Rightarrow> Inl e | Inr w1 \<Rightarrow> run ys w1)"
  by (induction xs arbitrary: w) (simp_all split: sum.splits)

lemma nextPhaseSkipZero_unfold:
  "nextPhaseSkipZero cur pat =
     (if timing (timings pat) (cyclicSuccessor cur) > 0 then Inr (cyclicSuccessor cur)
      else if timing (timings pat) (cyclicSuccessor (cyclicSuccessor cur)) > 0
        then Inr (cyclicSuccessor (cyclicSuccessor cur))
      else if timing (timings pat) (cyclicSuccessor (cyclicSuccessor (cyclicSuccessor cur))) > 0
        then Inr (cyclicSuccessor (cyclicSuccessor (cyclicSuccessor cur)))
      else if timing (timings pat)
           (cyclicSuccessor (cyclicSuccessor (cyclicSuccessor (cyclicSuccessor cur)))) > 0
        then Inr (cyclicSuccessor (cyclicSuccessor (cyclicSuccessor (cyclicSuccessor cur))))
      else Inl InvalidPattern)"
  by (simp add: nextPhaseSkipZero_def eval_nat_numeral)

lemmas eval_defs =
  loop_def mainEffect_def mainEffectCleanup_def onVis_def syncSettings_def render_def
  elapsedSec_def tickProgress_def denom_def isPatternValid_def isCycleBoundary_def
  nextPhaseSkipZero_unfold initialWorld_def initialRefs_def initialState_def newEvents_def
  Let_def

section \<open>The session store: finishing and starting a session\<close>

text \<open>
  C1 (as amended). \<open>finishSession\<close> never consults \<open>isActive\<close>: the history and the
  settings it produces are the same whether the store is active or not. The duration it
  uses is \<open>floor ((now - sessionStartTime) / 1000)\<close> as computed, with no floor at 0, and
  that value is what \<open>lastSessionStats\<close> records. The call leaves the history, the streak
  and \<open>lastBreathDate\<close> unchanged whenever that duration is at most 10 seconds, so in
  particular for every negative duration.
\<close>

theorem finishSession_ignores_isActive:
  "history (finishSession env (s\<lparr>isActive := b\<rparr>)) = history (finishSession env s) \<and>
   userSettings (finishSession env (s\<lparr>isActive := b\<rparr>)) = userSettings (finishSession env s) \<and>
   map_option stats_durationSec (lastSessionStats (finishSession env s)) =
     Some ((nowDuration env - sessionStartTime s) div 1000) \<and>
   ((nowDuration env - sessionStartTime s) div 1000 \<le> 10 \<longrightarrow>
      history (finishSession env s) = history s \<and>
      streak (userSettings (finishSession env s)) = streak (userSettings s) \<and>
      lastBreathDate (userSettings (finishSession env s)) = lastBreathDate (userSettings s))"
  by (simp add: finish_defs)

text \<open>
  An active session whose start time lies 4 seconds in the future (clock skew): the
  duration is \<open>-4\<close>, nothing is appended, and \<open>-4\<close> is recorded.
\<close>

theorem finishSession_ignores_isActive_witness:
  "((1000 - 5000) div 1000 :: int) \<le> 10 \<and>
   history (finishSession
     \<lparr>nowDuration = 1000, nowId = 1000, randomDigits = ''1234'', nowTimestamp = 1000,
      today = ''2023-11-14'', yesterday = ''2023-11-13''\<rparr>
     (initialState\<lparr>isActive := True, sessionStartTime := 5000\<rparr>)) = [] \<and>
   map_option stats_durationSec (lastSessionStats (finishSession
     \<lparr>nowDuration = 1000, nowId = 1000, randomDigits = ''1234'', nowTimestamp = 1000,
      today = ''2023-11-14'', yesterday = ''2023-11-13''\<rparr>
     (initialState\<lparr>isActive := True, sessionStartTime := 5000\<rparr>))) = Some (- 4)"
  using finishSession_ignores_isActive [where env =
     "\<lparr>nowDuration = 1000, nowId = 1000, randomDigits = ''1234'', nowTimestamp = 1000,
      today = ''2023-11-14'', yesterday = ''2023-11-13''\<rparr>"
     and s = "initialState\<lparr>isActive := True, sessionStartTime := 5000\<rparr>" and b = True]
  by (simp add: initialState_def)

text \<open>
  As the specification states it, the property fails. On the initial store, which is not active and has
  \<open>sessionStartTime = 0\<close>, a call at wall-clock time 1700000000000 ms computes a duration
  of 1700000000 seconds: one history item of that duration is appended, the streak goes
  from 0 to 1 and \<open>lastBreathDate\<close> from the empty string to today. And a duration of
  \<open>-3\<close> seconds is recorded as \<open>-3\<close>, not as 0.
\<close>

theorem finishSession_inactive_counterexample:
  "\<not> isActive initialState \<and> history initialState = [] \<and>
   streak (userSettings initialState) = 0 \<and> lastBreathDate (userSettings initialState) = [] \<and>
   map durationSec (history (finishSession
      \<lparr>nowDuration = 1700000000000, nowId = 1700000000000, randomDigits = ''1234'',
       nowTimestamp = 1700000000000, today = ''2023-11-14'', yesterday = ''2023-11-13''\<rparr>
      initialState)) = [1700000000] \<and>
   streak (userSettings (finishSession
      \<lparr>nowDuration = 1700000000000, nowId = 1700000000000, randomDigits = ''1234'',
       nowTimestamp = 1700000000000, today = ''2023-11-14'', yesterday = ''2023-11-13''\<rparr>
      initialState)) = 1 \<and>
   lastBreathDate (userSettings (finishSession
      \<lparr>nowDuration = 1700000000000, nowId = 1700000000000, randomDigits = ''1234'',
       nowTimestamp = 1700000000000, today = ''2023-11-14'', yesterday = ''2023-11-13''\<rparr>
      initialState)) = ''2023-11-14'' \<and>
   map_option stats_durationSec (lastSessionStats (finishSession
      \<lparr>nowDuration = 2000, nowId = 2000, randomDigits = ''1234'',
       nowTimestamp = 2000, today = ''2023-11-14'', yesterday = ''2023-11-13''\<rparr>
      (initialState\<lparr>isActive := True, sessionStartTime := 5000\<rparr>))) = Some (- 3)"
  by (simp add: finish_defs initialState_def)

text \<open>
  C2. On \<open>finishSession\<close> the streak changes only when the duration exceeds 30 seconds,
  and then by the decision table, read top to bottom: \<open>lastBreathDate\<close> equal to today
  leaves both fields unchanged; otherwise equal to yesterday adds 1 to the streak and
  credits today; otherwise the streak becomes 1 and today is credited. A duration of 30
  seconds or less leaves both fields unchanged.
\<close>

theorem finishSession_streak_table:
  "((nowDuration env - sessionStartTime s) div 1000 \<le> 30 \<longrightarrow>
      streak (userSettings (finishSession env s)) = streak (userSettings s) \<and>
      lastBreathDate (userSettings (finishSession env s)) = lastBreathDate (userSettings s)) \<and>
   ((nowDuration env - sessionStartTime s) div 1000 > 30 \<longrightarrow>
      (lastBreathDate (userSettings s) = today env \<longrightarrow>
         streak (userSettings (finishSession env s)) = streak (userSettings s) \<and>
         lastBreathDate (userSettings (finishSession env s)) = lastBreathDate (userSettings s)) \<and>
      (lastBreathDate (userSettings s) \<noteq> today env \<and>
       lastBreathDate (userSettings s) = yesterday env \<longrightarrow>
         streak (userSettings (finishSession env s)) = streak (userSettings s) + 1 \<and>
         lastBreathDate (userSettings (finishSession env s)) = today env) \<and>
      (lastBreathDate (userSettings s) \<noteq> today env \<and>
       lastBreathDate (userSettings s) \<noteq> yesterday env \<longrightarrow>
         streak (userSettings (finishSession env s)) = 1 \<and>
         lastBreathDate (userSettings (finishSession env s)) = today env))"
  by (simp add: finish_defs Let_def)

text \<open>
  The scenarios of the specification: a first session of 35 seconds with no prior streak
  gives streak 1 credited today; a second session of 35 seconds later the same day keeps
  streak 1; a session of 31 seconds on the following day gives streak 2; a session just
  short of 31 seconds (duration 30) changes nothing.
\<close>

theorem finishSession_streak_table_witness:
  "(((1700000035000 - 1700000000000) div 1000 :: int) > 30 \<and>
    streak (userSettings (finishSession
      \<lparr>nowDuration = 1700000035000, nowId = 1700000035000, randomDigits = ''1234'',
       nowTimestamp = 1700000035000, today = ''2023-11-14'', yesterday = ''2023-11-13''\<rparr>
      (startSession Pattern478 1700000000000 initialState))) = 1 \<and>
    lastBreathDate (userSettings (finishSession
      \<lparr>nowDuration = 1700000035000, nowId = 1700000035000, randomDigits = ''1234'',
       nowTimestamp = 1700000035000, today = ''2023-11-14'', yesterday = ''2023-11-13''\<rparr>
      (startSession Pattern478 1700000000000 initialState))) = ''2023-11-14'') \<and>
   (streak (userSettings (finishSession
      \<lparr>nowDuration = 1700003635000, nowId = 1700003635000, randomDigits = ''5678'',
       nowTimestamp = 1700003635000, today = ''2023-11-14'', yesterday = ''2023-11-13''\<rparr>
      (startSession Pattern478 1700003600000 (finishSession
        \<lparr>nowDuration = 1700000035000, nowId = 1700000035000, randomDigits = ''1234'',
         nowTimestamp = 1700000035000, today = ''2023-11-14'', yesterday = ''2023-11-13''\<rparr>
        (startSession Pattern478 1700000000000 initialState))))) = 1) \<and>
   (((1700086431000 - 1700086400000) div 1000 :: int) > 30 \<and>
    streak (userSettings (finishSession
      \<lparr>nowDuration = 1700086431000, nowId = 1700086431000, randomDigits = ''9012'',
       nowTimestamp = 1700086431000, today = ''2023-11-15'', yesterday = ''2023-11-14''\<rparr>
      (startSession PatternBox 1700086400000 (finishSession
        \<lparr>nowDuration = 1700000035000, nowId = 1700000035000, randomDigits = ''1234'',
         nowTimestamp = 1700000035000, today = ''2023-11-14'', yesterday = ''2023-11-13''\<rparr>
        (startSession Pattern478 1700000000000 initialState))))) = 2) \<and>
   (((1700000030999 - 1700000000000) div 1000 :: int) \<le> 30 \<and>
    streak (userSettings (finishSession
      \<lparr>nowDuration = 1700000030999, nowId = 1700000030999, randomDigits = ''1234'',
       nowTimestamp = 1700000030999, today = ''2023-11-14'', yesterday = ''2023-11-13''\<rparr>
      (startSession Pattern478 1700000000000 initialState))) = 0)"
  using
    finishSession_streak_table [where env =
      "\<lparr>nowDuration = 1700000035000, nowId = 1700000035000, randomDigits = ''1234'',
       nowTimestamp = 1700000035000, today = ''2023-11-14'', yesterday = ''2023-11-13''\<rparr>"
      and s = "startSession Pattern478 1700000000000 initialState"]
    finishSession_streak_table [where env =
      "\<lparr>nowDuration = 1700003635000, nowId = 1700003635000, randomDigits = ''5678'',
       nowTimestamp = 1700003635000, today = ''2023-11-14'', yesterday = ''2023-11-13''\<rparr>"
      and s = "startSession Pattern478 1700003600000 (finishSession
        \<lparr>nowDuration = 1700000035000, nowId = 1700000035000, randomDigits = ''1234'',
         nowTimestamp = 1700000035000, today = ''2023-11-14'', yesterday = ''2023-11-13''\<rparr>
        (startSession Pattern478 1700000000000 initialState))"]
    finishSession_streak_table [where env =
      "\<lparr>nowDuration = 1700086431000, nowId = 1700086431000, randomDigits = ''9012'',
       nowTimestamp = 1700086431000, today = ''2023-11-15'', yesterday = ''2023-11-14''\<rparr>"
      and s = "startSession PatternBox 1700086400000 (finishSession
        \<lparr>nowDuration = 1700000035000, nowId = 1700000035000, randomDigits = ''1234'',
         nowTimestamp = 1700000035000, today = ''2023-11-14'', yesterday = ''2023-11-13''\<rparr>
        (startSession Pattern478 1700000000000 initialState))"]
    finishSession_streak_table [where env =
      "\<lparr>nowDuration = 1700000030999, nowId = 1700000030999, randomDigits = ''1234'',
       nowTimestamp = 1700000030999, today = ''2023-11-14'', yesterday = ''2023-11-13''\<rparr>"
      and s = "startSession Pattern478 1700000000000 initialState"]
  by (simp add: initialState_def finish_defs action_defs)

text \<open>
  C3. \<open>finishSession\<close> prepends exactly one item to the history if and only if the
  duration exceeds 10 seconds; the item carries that duration, the timestamp, the
  pattern and the cycle count. The new list keeps the earlier items in their order behind
  the new one and has at most 100 entries: below the cap nothing is dropped, and on a
  full list of 100 only the last, oldest entry is dropped. No action other than
  \<open>finishSession\<close> and \<open>clearHistory\<close> changes the history, no action makes it longer
  than 100, and \<open>clearHistory\<close> empties it.
\<close>

theorem finishSession_history_bounded:
  "((nowDuration env - sessionStartTime s) div 1000 \<le> 10 \<longrightarrow>
      history (finishSession env s) = history s) \<and>
   ((nowDuration env - sessionStartTime s) div 1000 > 10 \<longrightarrow>
      history (finishSession env s) = newItem env s # take 99 (history s) \<and>
      length (history (finishSession env s)) \<le> 100 \<and>
      durationSec (newItem env s) = (nowDuration env - sessionStartTime s) div 1000 \<and>
      timestamp (newItem env s) = nowTimestamp env \<and>
      patternId (newItem env s) = id_pattern (currentPattern s) \<and>
      cycles (newItem env s) = cycleCount s \<and>
      (length (history s) < 100 \<longrightarrow>
         history (finishSession env s) = newItem env s # history s) \<and>
      (length (history s) = 100 \<longrightarrow>
         history (finishSession env s) = newItem env s # butlast (history s))) \<and>
   (\<forall>a. length (history s) \<le> 100 \<longrightarrow> length (history (dispatch a s)) \<le> 100) \<and>
   (\<forall>a. a \<noteq> ClearHistory \<and> (\<forall>e. a \<noteq> FinishSession e) \<longrightarrow>
      history (dispatch a s) = history s) \<and>
   history (clearHistory s) = []"
proof -
  have cap: "length (history (dispatch a s)) \<le> 100" if "length (history s) \<le> 100" for a
    using that by (cases a) (simp_all add: action_defs finish_defs)
  have keep: "history (dispatch a s) = history s"
    if "a \<noteq> ClearHistory \<and> (\<forall>e. a \<noteq> FinishSession e)" for a
    using that by (simp add: dispatch_history_other)
  have fin: "(nowDuration env - sessionStartTime s) div 1000 > 10 \<longrightarrow>
      history (finishSession env s) = newItem env s # take 99 (history s) \<and>
      length (history (finishSession env s)) \<le> 100 \<and>
      (length (history s) < 100 \<longrightarrow>
         history (finishSession env s) = newItem env s # history s) \<and>
      (length (history s) = 100 \<longrightarrow>
         history (finishSession env s) = newItem env s # butlast (history s))"
    by (simp add: finishSession_def finishHistory_def finishDuration_def take_Cons'
        butlast_conv_take)
  have short: "(nowDuration env - sessionStartTime s) div 1000 \<le> 10 \<longrightarrow>
      history (finishSession env s) = history s"
    by (simp add: finishSession_def finishHistory_def finishDuration_def)
  have item: "durationSec (newItem env s) = (nowDuration env - sessionStartTime s) div 1000 \<and>
      timestamp (newItem env s) = nowTimestamp env \<and>
      patternId (newItem env s) = id_pattern (currentPattern s) \<and>
      cycles (newItem env s) = cycleCount s"
    by (simp add: newItem_def finishDuration_def)
  have clr: "history (clearHistory s) = []"
    by (simp add: clearHistory_def)
  from cap keep fin short item clr show ?thesis by blast
qed

text \<open>
  A session of 8 seconds appends nothing; one of 15 seconds appends one item; on a full
  history of 100 items the append drops the oldest one; pausing leaves the history alone.
\<close>

theorem finishSession_history_bounded_witness:
  "(((1700000008000 - 1700000000000) div 1000 :: int) \<le> 10 \<and>
    history (finishSession
      \<lparr>nowDuration = 1700000008000, nowId = 1700000008000, randomDigits = ''1234'',
       nowTimestamp = 1700000008000, today = ''2023-11-14'', yesterday = ''2023-11-13''\<rparr>
      (startSession Pattern478 1700000000000 initialState)) = []) \<and>
   (((1700000015000 - 1700000000000) div 1000 :: int) > 10 \<and>
    map durationSec (history (finishSession
      \<lparr>nowDuration = 1700000015000, nowId = 1700000015000, randomDigits = ''1234'',
       nowTimestamp = 1700000015000, today = ''2023-11-14'', yesterday = ''2023-11-13''\<rparr>
      (startSession Pattern478 1700000000000 initialState))) = [15]) \<and>
   (length (replicate 99 
        \<lparr>id_item = ''a'', timestamp = 5, durationSec = 20, patternId = PatternBox, cycles = 1\<rparr>
        @ [
        \<lparr>id_item = ''b'', timestamp = 1, durationSec = 20, patternId = PatternBox, cycles = 1\<rparr>]) = 100 \<and>
    map timestamp (history (finishSession
      \<lparr>nowDuration = 1700000015000, nowId = 1700000015000, randomDigits = ''1234'',
       nowTimestamp = 1700000015000, today = ''2023-11-14'', yesterday = ''2023-11-13''\<rparr>
      (startSession Pattern478 1700000000000
         (initialState\<lparr>history := replicate 99 
        \<lparr>id_item = ''a'', timestamp = 5, durationSec = 20, patternId = PatternBox, cycles = 1\<rparr>
        @ [
        \<lparr>id_item = ''b'', timestamp = 1, durationSec = 20, patternId = PatternBox, cycles = 1\<rparr>]\<rparr>)))) =
      1700000015000 # replicate 99 5) \<and>
   (TogglePause \<noteq> ClearHistory \<and>
    history (dispatch TogglePause (initialState\<lparr>history := [
        \<lparr>id_item = ''b'', timestamp = 1, durationSec = 20, patternId = PatternBox, cycles = 1\<rparr>]\<rparr>)) = [
        \<lparr>id_item = ''b'', timestamp = 1, durationSec = 20, patternId = PatternBox, cycles = 1\<rparr>])"
  using
    finishSession_history_bounded [where env =
      "\<lparr>nowDuration = 1700000008000, nowId = 1700000008000, randomDigits = ''1234'',
       nowTimestamp = 1700000008000, today = ''2023-11-14'', yesterday = ''2023-11-13''\<rparr>"
      and s = "startSession Pattern478 1700000000000 initialState"]
    finishSession_history_bounded [where env =
      "\<lparr>nowDuration = 1700000015000, nowId = 1700000015000, randomDigits = ''1234'',
       nowTimestamp = 1700000015000, today = ''2023-11-14'', yesterday = ''2023-11-13''\<rparr>"
      and s = "startSession Pattern478 1700000000000 initialState"]
    finishSession_history_bounded [where env =
      "\<lparr>nowDuration = 1700000015000, nowId = 1700000015000, randomDigits = ''1234'',
       nowTimestamp = 1700000015000, today = ''2023-11-14'', yesterday = ''2023-11-13''\<rparr>"
      and s = "startSession Pattern478 1700000000000
         (initialState\<lparr>history := replicate 99 
        \<lparr>id_item = ''a'', timestamp = 5, durationSec = 20, patternId = PatternBox, cycles = 1\<rparr>
        @ [
        \<lparr>id_item = ''b'', timestamp = 1, durationSec = 20, patternId = PatternBox, cycles = 1\<rparr>]\<rparr>)"]
    finishSession_history_bounded [where env =
      "\<lparr>nowDuration = 1700000015000, nowId = 1700000015000, randomDigits = ''1234'',
       nowTimestamp = 1700000015000, today = ''2023-11-14'', yesterday = ''2023-11-13''\<rparr>"
      and s = "initialState\<lparr>history := [
        \<lparr>id_item = ''b'', timestamp = 1, durationSec = 20, patternId = PatternBox, cycles = 1\<rparr>]\<rparr>"]
  by (simp add: initialState_def action_defs newItem_def)

text \<open>
  C10. Whatever the store held before, \<open>startSession\<close> makes the session active and not
  paused, in phase inhale with cycle count 0, started now, with the summary hidden and the
  chosen pattern current; history, settings, the onboarding flag and the last session's
  statistics are as before. The phase is inhale for every pattern table, so also for a
  pattern whose inhale duration is 0, and the result does not depend on whether a session
  was active: the session in progress is dropped with nothing appended or credited.
\<close>

theorem startSession_resets_session:
  "isActive (startSessionWith patterns type now s) \<and>
   \<not> isPaused (startSessionWith patterns type now s) \<and>
   phase (startSessionWith patterns type now s) = Inhale \<and>
   cycleCount (startSessionWith patterns type now s) = 0 \<and>
   sessionStartTime (startSessionWith patterns type now s) = now \<and>
   \<not> showSummary (startSessionWith patterns type now s) \<and>
   currentPattern (startSessionWith patterns type now s) = patterns type \<and>
   history (startSessionWith patterns type now s) = history s \<and>
   userSettings (startSessionWith patterns type now s) = userSettings s \<and>
   hasSeenOnboarding (startSessionWith patterns type now s) = hasSeenOnboarding s \<and>
   lastSessionStats (startSessionWith patterns type now s) = lastSessionStats s \<and>
   startSession type now s = startSessionWith BREATHING_PATTERNS type now s \<and>
   startSession type now (s\<lparr>isActive := True\<rparr>) = startSession type now (s\<lparr>isActive := False\<rparr>)"
  by (simp add: startSession_def startSessionWith_def)

section \<open>The phase machine\<close>

text \<open>
  C4. For a pattern with at least one positive duration, \<open>nextPhaseSkipZero\<close> returns
  the first phase after the current one, in the cyclic order inhale, holdIn, exhale,
  holdOut, inhale, whose duration is strictly positive: it is reached in \<open>k\<close> steps of the
  cycle, \<open>1 \<le> k \<le> 4\<close>, and the phases passed on the way have no positive duration. When
  the current phase is the only one with a positive duration the result is that same
  phase. When no phase has a positive duration the result is the failure
  \<open>InvalidPattern\<close>. For the 4-7-8 pattern the order is inhale, holdIn, exhale, inhale.
  The function is total: the search is a structural recursion over at most four steps.
\<close>

theorem nextPhaseSkipZero_cyclic:
  "(isPatternValid pattern \<longrightarrow>
      (\<exists>k\<in>{1..4}. nextPhaseSkipZero current pattern = Inr ((cyclicSuccessor ^^ k) current) \<and>
         timing (timings pattern) ((cyclicSuccessor ^^ k) current) > 0 \<and>
         (\<forall>j\<in>{1..<k}. \<not> timing (timings pattern) ((cyclicSuccessor ^^ j) current) > 0))) \<and>
   (timing (timings pattern) current > 0 \<and>
    (\<forall>p. p \<noteq> current \<longrightarrow> \<not> timing (timings pattern) p > 0) \<longrightarrow>
      nextPhaseSkipZero current pattern = Inr current) \<and>
   (\<not> isPatternValid pattern \<longrightarrow> nextPhaseSkipZero current pattern = Inl InvalidPattern) \<and>
   nextPhaseSkipZero Inhale (BREATHING_PATTERNS Pattern478) = Inr HoldIn \<and>
   nextPhaseSkipZero HoldIn (BREATHING_PATTERNS Pattern478) = Inr Exhale \<and>
   nextPhaseSkipZero Exhale (BREATHING_PATTERNS Pattern478) = Inr Inhale"
proof -
  have seq: "nextPhaseSkipZero Inhale (BREATHING_PATTERNS Pattern478) = Inr HoldIn \<and>
     nextPhaseSkipZero HoldIn (BREATHING_PATTERNS Pattern478) = Inr Exhale \<and>
     nextPhaseSkipZero Exhale (BREATHING_PATTERNS Pattern478) = Inr Inhale"
    by (simp add: nextPhaseSkipZero_def eval_nat_numeral)
  show ?thesis
    using nextPhaseSkipZero_first_positive [of pattern current]
      nextPhaseSkipZero_single [of pattern current]
      nextPhaseSkipZero_invalid [of pattern current] seq
    by blast
qed

text \<open>
  The 4-7-8 pattern from exhale (holdOut is skipped), a pattern whose only positive
  duration is the inhale, and a pattern with no positive duration.
\<close>

theorem nextPhaseSkipZero_cyclic_witness:
  "isPatternValid (BREATHING_PATTERNS Pattern478) \<and>
   nextPhaseSkipZero Exhale (BREATHING_PATTERNS Pattern478) = Inr Inhale \<and>
   timing (timings ((BREATHING_PATTERNS PatternCalm)
     \<lparr>timings := \<lparr>inhale = 5, holdIn = 0, exhale = 0, holdOut = 0\<rparr>\<rparr>)) Inhale > 0 \<and>
   nextPhaseSkipZero Inhale ((BREATHING_PATTERNS PatternCalm)
     \<lparr>timings := \<lparr>inhale = 5, holdIn = 0, exhale = 0, holdOut = 0\<rparr>\<rparr>) = Inr Inhale \<and>
   \<not> isPatternValid ((BREATHING_PATTERNS PatternCalm)
     \<lparr>timings := \<lparr>inhale = 0, holdIn = 0, exhale = 0, holdOut = 0\<rparr>\<rparr>) \<and>
   nextPhaseSkipZero HoldIn ((BREATHING_PATTERNS PatternCalm)
     \<lparr>timings := \<lparr>inhale = 0, holdIn = 0, exhale = 0, holdOut = 0\<rparr>\<rparr>) = Inl InvalidPattern"
  using
    nextPhaseSkipZero_cyclic [of "BREATHING_PATTERNS Pattern478" Exhale]
    nextPhaseSkipZero_cyclic [of "(BREATHING_PATTERNS PatternCalm)
       \<lparr>timings := \<lparr>inhale = 5, holdIn = 0, exhale = 0, holdOut = 0\<rparr>\<rparr>" Inhale]
    nextPhaseSkipZero_cyclic [of "(BREATHING_PATTERNS PatternCalm)
       \<lparr>timings := \<lparr>inhale = 0, holdIn = 0, exhale = 0, holdOut = 0\<rparr>\<rparr>" HoldIn]
  by (simp add: isPatternValid_def nextPhaseSkipZero_def eval_nat_numeral)

section \<open>The engine: cycles, ordering within a frame, pause, suspension, fail-safe\<close>

lemmas scenario_defs =
  phaseChangeScenario_def staleFrameScenario_def pausedScenario_def pauseHideResumeScenario_def
  pendingPhase_def

text \<open>
  C5. The cycle count is meant to rise once per transition into inhale. It does not: a
  frame callback computes the next phase from the phase of the render that created it,
  and the frame that the soft resume requests is the callback of the render in which
  \<^verbatim>\<open>isActive\<close> or \<^verbatim>\<open>isPaused\<close> last changed. In the session below that render is the
  resume during the exhale. When the page is shown again the store is in inhale with one
  cycle counted, and the pending frame 10 closes over exhale. Six seconds after the soft
  resume that frame takes the exhale as finished: it increments the cycle count to 2 and
  sets the phase to inhale, which it already was. The count has risen with no transition
  into inhale and no wrap of the cycle.
\<close>

theorem stale_frame_increments_without_wrap:
  "map_sum id (phase \<circ> store) (run staleFrameScenario initialWorld) = Inr Inhale \<and>
   map_sum id (cycleCount \<circ> store) (run staleFrameScenario initialWorld) = Inr 1 \<and>
   map_sum id (pendingPhase 10) (run staleFrameScenario initialWorld) = Inr (Some Exhale) \<and>
   map_sum id (phase \<circ> store)
     (run (staleFrameScenario @ [Frame 10 26000 26001 11]) initialWorld) = Inr Inhale \<and>
   map_sum id (cycleCount \<circ> store)
     (run (staleFrameScenario @ [Frame 10 26000 26001 11]) initialWorld) = Inr 2"
  by (simp add: scenario_defs eval_defs engine_defs action_defs)

text \<open>
  What does hold, for every closure a frame may run with: over any run of one session the
  run never fails, and the cycle count grows by exactly the number of \<^verbatim>\<open>setPhase\<close> calls
  with argument inhale that the frame callbacks made; \<open>startSession\<close> sets phase inhale
  with cycle count 0, and the main effect leaves the store alone.
\<close>

lemma cycleCount_pairs_with_setPhase_inhale:
  "(\<exists>w'. run ins w = Inr w') \<and>
   (\<forall>w'. run ins w = Inr w' \<and> list_all withinSession ins \<longrightarrow>
      cycleCount (store w') =
        cycleCount (store w) + count_list (newEvents w w') (EvSetPhase Inhale)) \<and>
   cycleCount (startSession type now (store w)) = 0 \<and>
   phase (startSession type now (store w)) = Inhale \<and>
   store (mainEffect c perfNow rid w) = store w \<and>
   (\<forall>w'. run (Dispatch (StartSession type now) # ins @ [Dispatch (FinishSession env)]) w = Inr w' \<and>
      list_all withinSession ins \<and>
      count_list (newEvents w w') (EvSetPhase Inhale) = 0 \<longrightarrow>
      map_option cyclesCompleted (lastSessionStats (store w')) = Some 0)"
proof -
  have A: "cycleCount (store w') =
        cycleCount (store w0) + count_list (newEvents w0 w') (EvSetPhase Inhale)"
    if "run ins w0 = Inr w'" "list_all withinSession ins" for w0 w'
    using run_cycleCount [of ins w0 w'] that by (auto simp: newEvents_def list_all_iff)
  have B: "store (mainEffect c perfNow rid w) = store w"
    by (auto simp: mainEffect_def engine_defs Let_def split: option.splits)
  have C: "map_option cyclesCompleted (lastSessionStats (store w')) = Some 0"
    if r: "run (Dispatch (StartSession type now) # ins @ [Dispatch (FinishSession env)]) w = Inr w'"
      and ws: "list_all withinSession ins"
      and z: "count_list (newEvents w w') (EvSetPhase Inhale) = 0" for w'
  proof -
    let ?w0 = "w\<lparr>store := startSession type now (store w)\<rparr>"
    obtain w1 where w1: "run ins ?w0 = Inr w1" using run_total by blast
    from r w1 have w': "w' = w1\<lparr>store := finishSession env (store w1)\<rparr>"
      by (simp add: run_append)
    have ev: "newEvents w w' = newEvents ?w0 w1" using w' by (simp add: newEvents_def)
    from A [OF w1 ws] z ev have "cycleCount (store w1) = 0"
      by (simp add: startSession_def startSessionWith_def)
    with w' show ?thesis by (simp add: finishSession_def)
  qed
  from A B C run_total [of ins w] show ?thesis
    by (simp add: startSession_def startSessionWith_def)
qed

text \<open>
  C6 (as amended). In every frame that crosses a phase boundary of a valid pattern the
  frame callback does, in this order: the cycle increment (only when the new phase is
  inhale), the phase change in the store, its haptic call and its audio call for the new
  phase with its configured duration, and the request of the next frame. So the cycle
  increment comes before the phase change, not after it, and the phase change precedes
  the callback's cue calls. How many cues the new phase receives in all is not part of
  this statement.
\<close>

theorem tick_event_order:
  "isPatternValid (c_currentPattern c) \<and>
   elapsedSec now w \<ge> timing (timings (c_currentPattern c)) (c_phase c) \<longrightarrow>
   (\<exists>nxt w'. nextPhaseSkipZero (c_phase c) (c_currentPattern c) = Inr nxt \<and>
      loop c now perfNow rid w = Inr w' \<and>
      newEvents w w' =
        (if nxt = Inhale then [EvIncrementCycle] else []) @
        [EvSetPhase nxt,
         EvHapticPhase (hapticEnabled (settingsRef (refs w)))
           (hapticStrength (settingsRef (refs w))) (phaseToCueType nxt),
         EvPlayCue (phaseToCueType nxt) (soundEnabled (settingsRef (refs w)))
           (soundPack (settingsRef (refs w))) (timing (timings (c_currentPattern c)) nxt)
           (language (settingsRef (refs w))),
         EvRequestFrame rid] \<and>
      events w' = events w @ newEvents w w' \<and>
      phase (store w') = nxt \<and>
      cycleCount (store w') = cycleCount (store w) + (if nxt = Inhale then 1 else 0) \<and>
      count_list (newEvents w w') (EvSetPhase nxt) = 1 \<and>
      (nxt = Inhale \<longrightarrow> precedes EvIncrementCycle (EvSetPhase nxt) (newEvents w w') \<and>
         \<not> precedes (EvSetPhase nxt) EvIncrementCycle (newEvents w w')) \<and>
      precedes (EvSetPhase nxt)
        (EvHapticPhase (hapticEnabled (settingsRef (refs w)))
           (hapticStrength (settingsRef (refs w))) (phaseToCueType nxt)) (newEvents w w') \<and>
      precedes (EvSetPhase nxt)
        (EvPlayCue (phaseToCueType nxt) (soundEnabled (settingsRef (refs w)))
           (soundPack (settingsRef (refs w))) (timing (timings (c_currentPattern c)) nxt)
           (language (settingsRef (refs w)))) (newEvents w w'))"
proof (intro impI)
  assume a: "isPatternValid (c_currentPattern c) \<and>
   elapsedSec now w \<ge> timing (timings (c_currentPattern c)) (c_phase c)"
  then obtain q where q: "nextPhaseSkipZero (c_phase c) (c_currentPattern c) = Inr q"
    using nextPhaseSkipZero_valid by blast
  obtain w' where w': "loop c now perfNow rid w = Inr w'"
    using loop_total by blast
  from a have v: "isPatternValid (c_currentPattern c)"
    and e: "elapsedSec now w \<ge> timing (timings (c_currentPattern c)) (c_phase c)" by simp_all
  note ev = loop_cross_events(1) [OF v e q w'] and st = loop_cross_events(2) [OF v e q w']
  have ne: "newEvents w w' =
        (if q = Inhale then [EvIncrementCycle] else []) @
        [EvSetPhase q,
         EvHapticPhase (hapticEnabled (settingsRef (refs w)))
           (hapticStrength (settingsRef (refs w))) (phaseToCueType q),
         EvPlayCue (phaseToCueType q) (soundEnabled (settingsRef (refs w)))
           (soundPack (settingsRef (refs w))) (timing (timings (c_currentPattern c)) q)
           (language (settingsRef (refs w))),
         EvRequestFrame rid]"
    using ev by (simp add: newEvents_def)
  have app: "events w' = events w @ newEvents w w'"
    using ev ne by simp
  have ph: "phase (store w') = q"
    and cc: "cycleCount (store w') = cycleCount (store w) + (if q = Inhale then 1 else 0)"
    using st by simp_all
  have rest: "count_list (newEvents w w') (EvSetPhase q) = 1 \<and>
      (q = Inhale \<longrightarrow> precedes EvIncrementCycle (EvSetPhase q) (newEvents w w') \<and>
         \<not> precedes (EvSetPhase q) EvIncrementCycle (newEvents w w')) \<and>
      precedes (EvSetPhase q)
        (EvHapticPhase (hapticEnabled (settingsRef (refs w)))
           (hapticStrength (settingsRef (refs w))) (phaseToCueType q)) (newEvents w w') \<and>
      precedes (EvSetPhase q)
        (EvPlayCue (phaseToCueType q) (soundEnabled (settingsRef (refs w)))
           (soundPack (settingsRef (refs w))) (timing (timings (c_currentPattern c)) q)
           (language (settingsRef (refs w)))) (newEvents w w')"
    unfolding ne by simp
  from q w' ne app ph cc rest show "\<exists>nxt w'. nextPhaseSkipZero (c_phase c) (c_currentPattern c) = Inr nxt \<and>
      loop c now perfNow rid w = Inr w' \<and>
      newEvents w w' =
        (if nxt = Inhale then [EvIncrementCycle] else []) @
        [EvSetPhase nxt,
         EvHapticPhase (hapticEnabled (settingsRef (refs w)))
           (hapticStrength (settingsRef (refs w))) (phaseToCueType nxt),
         EvPlayCue (phaseToCueType nxt) (soundEnabled (settingsRef (refs w)))
           (soundPack (settingsRef (refs w))) (timing (timings (c_currentPattern c)) nxt)
           (language (settingsRef (refs w))),
         EvRequestFrame rid] \<and>
      events w' = events w @ newEvents w w' \<and>
      phase (store w') = nxt \<and>
      cycleCount (store w') = cycleCount (store w) + (if nxt = Inhale then 1 else 0) \<and>
      count_list (newEvents w w') (EvSetPhase nxt) = 1 \<and>
      (nxt = Inhale \<longrightarrow> precedes EvIncrementCycle (EvSetPhase nxt) (newEvents w w') \<and>
         \<not> precedes (EvSetPhase nxt) EvIncrementCycle (newEvents w w')) \<and>
      precedes (EvSetPhase nxt)
        (EvHapticPhase (hapticEnabled (settingsRef (refs w)))
           (hapticStrength (settingsRef (refs w))) (phaseToCueType nxt)) (newEvents w w') \<and>
      precedes (EvSetPhase nxt)
        (EvPlayCue (phaseToCueType nxt) (soundEnabled (settingsRef (refs w)))
           (soundPack (settingsRef (refs w))) (timing (timings (c_currentPattern c)) nxt)
           (language (settingsRef (refs w)))) (newEvents w w')"
    by blast
qed

text \<open>
  The frame that ends the inhale of the calm pattern: the phase change to exhale, then
  the cues. The frame that ends the second hold of the box pattern: the cycle increment,
  the phase change to inhale, then the cues.
\<close>

theorem tick_event_order_witness:
  "isPatternValid (c_currentPattern (render (startSession PatternCalm 1700000000000 initialState))) \<and>
   elapsedSec 5000
     (initialWorld\<lparr>store := startSession PatternCalm 1700000000000 initialState,
                   refs := (initialRefs (userSettings initialState))\<lparr>startTimeRef := 1000\<rparr>\<rparr>)
     \<ge> timing (timings (c_currentPattern
            (render (startSession PatternCalm 1700000000000 initialState))))
          (c_phase (render (startSession PatternCalm 1700000000000 initialState))) \<and>
   map_sum id events
     (loop (render (startSession PatternCalm 1700000000000 initialState)) 5000 5001 3
        (initialWorld\<lparr>store := startSession PatternCalm 1700000000000 initialState,
                      refs := (initialRefs (userSettings initialState))\<lparr>startTimeRef := 1000\<rparr>\<rparr>)) =
     Inr [EvSetPhase Exhale, EvHapticPhase True Medium CueExhale,
          EvPlayCue CueExhale True Musical 6 En, EvRequestFrame 3] \<and>
   isPatternValid (c_currentPattern
     (render (setPhase HoldOut (startSession PatternBox 1700000000000 initialState)))) \<and>
   elapsedSec 17000
     (initialWorld\<lparr>store := setPhase HoldOut (startSession PatternBox 1700000000000 initialState),
                   refs := (initialRefs (userSettings initialState))\<lparr>startTimeRef := 13000\<rparr>\<rparr>)
     \<ge> timing (timings (c_currentPattern
            (render (setPhase HoldOut (startSession PatternBox 1700000000000 initialState)))))
          (c_phase (render (setPhase HoldOut (startSession PatternBox 1700000000000 initialState)))) \<and>
   map_sum id events
     (loop (render (setPhase HoldOut (startSession PatternBox 1700000000000 initialState)))
        17000 17001 9
        (initialWorld\<lparr>store := setPhase HoldOut (startSession PatternBox 1700000000000 initialState),
                      refs := (initialRefs (userSettings initialState))\<lparr>startTimeRef := 13000\<rparr>\<rparr>)) =
     Inr [EvIncrementCycle, EvSetPhase Inhale, EvHapticPhase True Medium CueInhale,
          EvPlayCue CueInhale True Musical 4 En, EvRequestFrame 9]"
  using
    tick_event_order [where c = "render (startSession PatternCalm 1700000000000 initialState)"
      and now = 5000 and perfNow = 5001 and rid = 3 and w =
      "initialWorld\<lparr>store := startSession PatternCalm 1700000000000 initialState,
                    refs := (initialRefs (userSettings initialState))\<lparr>startTimeRef := 1000\<rparr>\<rparr>"]
    tick_event_order [where c =
      "render (setPhase HoldOut (startSession PatternBox 1700000000000 initialState))"
      and now = 17000 and perfNow = 17001 and rid = 9 and w =
      "initialWorld\<lparr>store := setPhase HoldOut (startSession PatternBox 1700000000000 initialState),
                    refs := (initialRefs (userSettings initialState))\<lparr>startTimeRef := 13000\<rparr>\<rparr>"]
  by (simp add: eval_defs engine_defs action_defs)

text \<open>
  The order the specification states, phase change before cycle increment, fails. The frame that
  ends the exhale of the calm pattern, 6 seconds after the phase began, increments the
  cycle count first and changes the phase to inhale second.
\<close>

theorem tick_order_counterexample:
  "map_sum id events
     (loop (render (setPhase Exhale (startSession PatternCalm 1700000000000 initialState)))
        11000 11001 4
        (initialWorld\<lparr>store := setPhase Exhale (startSession PatternCalm 1700000000000 initialState),
                      refs := (initialRefs (userSettings initialState))\<lparr>startTimeRef := 5000\<rparr>\<rparr>)) =
     Inr [EvIncrementCycle, EvSetPhase Inhale, EvHapticPhase True Medium CueInhale,
          EvPlayCue CueInhale True Musical 4 En, EvRequestFrame 4] \<and>
   precedes EvIncrementCycle (EvSetPhase Inhale)
     [EvIncrementCycle, EvSetPhase Inhale, EvHapticPhase True Medium CueInhale,
      EvPlayCue CueInhale True Musical 4 En, EvRequestFrame 4] \<and>
   \<not> precedes (EvSetPhase Inhale) EvIncrementCycle
     [EvIncrementCycle, EvSetPhase Inhale, EvHapticPhase True Medium CueInhale,
      EvPlayCue CueInhale True Musical 4 En, EvRequestFrame 4]"
  by (simp add: eval_defs engine_defs action_defs)

text \<open>
  Outside the frame callback the new phase gets its cue a second time. The main effect
  has \<^verbatim>\<open>phase\<close> among its dependencies, so it runs again after the render that follows
  the phase change, and with \<open>pausedAtRef = 0\<close> it takes the branch whose comment speaks
  of the initial cue for the very first phase start: the log holds the exhale cue from
  the frame and the same cue again from the effect.
\<close>

theorem phase_change_cue_emitted_twice:
  "map_sum id events (run phaseChangeScenario initialWorld) =
     Inr [EvHapticPhase True Medium CueInhale, EvPlayCue CueInhale True Musical 4 En,
          EvRequestFrame 1,
          EvSetPhase Exhale, EvHapticPhase True Medium CueExhale,
          EvPlayCue CueExhale True Musical 6 En, EvRequestFrame 2,
          EvCancelFrame 2,
          EvHapticPhase True Medium CueExhale, EvPlayCue CueExhale True Musical 6 En,
          EvRequestFrame 3]"
  by (simp add: scenario_defs eval_defs engine_defs action_defs)

text \<open>
  C7. A pause followed by a resume is meant to shift the phase start by the paused time,
  so that the time elapsed in the phase grows by the running time only. It does not when
  the page is hidden while the session is paused: the hidden branch of \<^verbatim>\<open>onVis\<close> has no
  guard and overwrites \<open>pausedAtRef\<close> with the time of hiding. In the session below the
  phase started at 1000, the pause is at 3000 with 2 seconds elapsed and progress one
  half, the page is hidden at 4000 and the resume is at 9000. The phase start moves by
  \<open>9000 - 4000\<close> to 6000 instead of by \<open>9000 - 3000\<close> to 7000: at the resume 3 seconds
  count as elapsed, not 2, and the first frame after the resume shows progress three
  quarters.
\<close>

theorem pause_hide_resume_jumps:
  "map_sum id (progressRef \<circ> refs) (run pausedScenario initialWorld) = Inr (1 / 2) \<and>
   map_sum id (startTimeRef \<circ> refs) (run pausedScenario initialWorld) = Inr 1000 \<and>
   map_sum id (elapsedSec 3000) (run pausedScenario initialWorld) = Inr 2 \<and>
   map_sum id (progressRef \<circ> refs) (run pauseHideResumeScenario initialWorld) = Inr (1 / 2) \<and>
   map_sum id (startTimeRef \<circ> refs) (run pauseHideResumeScenario initialWorld) = Inr 6000 \<and>
   map_sum id (elapsedSec 9000) (run pauseHideResumeScenario initialWorld) = Inr 3 \<and>
   map_sum id (progressRef \<circ> refs)
     (run (pauseHideResumeScenario @ [Frame 5 9000 9000 6]) initialWorld) = Inr (3 / 4)"
  by (simp add: scenario_defs eval_defs engine_defs action_defs)

text \<open>
  What does hold: when a running session with positive clock readings is paused at
  \<open>tPause\<close> and resumed at \<open>tResume\<close> with nothing else in between, the progress fraction
  after the resume is the one from before the pause, the phase start has moved forward by
  \<open>tResume - tPause\<close>, and the time elapsed in the phase grows by the running time only.
\<close>

lemma pause_resume_direct:
  "isActive (store w) \<and> \<not> isPaused (store w) \<and> 0 < startTimeRef (refs w) \<and> 0 < tPause \<longrightarrow>
   (\<exists>w1 w2.
      run [Dispatch TogglePause, RunCleanup, RunMainEffect tPause ridPause] w = Inr w1 \<and>
      run [Dispatch TogglePause, RunCleanup, RunMainEffect tPause ridPause,
           Dispatch TogglePause, RunMainEffect tResume ridResume] w = Inr w2 \<and>
      isPaused (store w1) \<and> rafIdRef (refs w1) = None \<and> pausedAtRef (refs w1) = tPause \<and>
      progressRef (refs w1) = progressRef (refs w) \<and>
      startTimeRef (refs w1) = startTimeRef (refs w) \<and>
      \<not> isPaused (store w2) \<and> rafIdRef (refs w2) = Some ridResume \<and> pausedAtRef (refs w2) = 0 \<and>
      progressRef (refs w2) = progressRef (refs w) \<and>
      startTimeRef (refs w2) = startTimeRef (refs w) + (tResume - tPause) \<and>
      elapsedSec tResume w2 = elapsedSec tPause w \<and>
      (\<forall>t. elapsedSec t w2 = elapsedSec tPause w + (t - tResume) / 1000) \<and>
      (\<forall>d. tickProgress (elapsedSec tResume w2) d = tickProgress (elapsedSec tPause w) d) \<and>
      filter isCue (newEvents w w2) = [] \<and>
      phase (store w2) = phase (store w) \<and> cycleCount (store w2) = cycleCount (store w))"
  by (cases "rafIdRef (refs w)")
    (auto simp: mainEffect_def mainEffectCleanup_def render_def togglePause_def engine_defs
      elapsedSec_def newEvents_def Let_def field_simps)

text \<open>
  C8. The page is hidden at \<open>tHidden\<close> and becomes visible at \<open>tVisible\<close>. If the session
  is then active and not paused, the phase start is \<open>tVisible\<close>, the progress fraction is
  0 and a frame is requested, whatever \<open>tHidden\<close> and \<open>tVisible\<close> are: no time elapsed
  in the phase is credited. If the session is not active or is paused, the handler
  changes nothing: phase start and progress are those from before the suspension and no
  frame is pending. Without a preceding suspension the handler does nothing either.
\<close>

theorem onVis_soft_resume:
  "(c_isActive cVisible \<and> \<not> c_isPaused cVisible \<longrightarrow>
      startTimeRef (refs (onVis cVisible False tVisible ridVisible (onVis cHidden True tHidden ridHidden w))) = tVisible \<and>
      progressRef (refs (onVis cVisible False tVisible ridVisible (onVis cHidden True tHidden ridHidden w))) = 0 \<and>
      elapsedSec tVisible (onVis cVisible False tVisible ridVisible (onVis cHidden True tHidden ridHidden w)) = 0 \<and>
      \<not> wasHiddenRef (refs (onVis cVisible False tVisible ridVisible (onVis cHidden True tHidden ridHidden w))) \<and>
      rafIdRef (refs (onVis cVisible False tVisible ridVisible (onVis cHidden True tHidden ridHidden w))) = Some ridVisible) \<and>
   (\<not> (c_isActive cVisible \<and> \<not> c_isPaused cVisible) \<longrightarrow>
      onVis cVisible False tVisible ridVisible (onVis cHidden True tHidden ridHidden w) = onVis cHidden True tHidden ridHidden w \<and>
      startTimeRef (refs (onVis cVisible False tVisible ridVisible (onVis cHidden True tHidden ridHidden w))) =
        startTimeRef (refs w) \<and>
      progressRef (refs (onVis cVisible False tVisible ridVisible (onVis cHidden True tHidden ridHidden w))) =
        progressRef (refs w) \<and>
      rafIdRef (refs (onVis cVisible False tVisible ridVisible (onVis cHidden True tHidden ridHidden w))) = None) \<and>
   wasHiddenRef (refs (onVis cHidden True tHidden ridHidden w)) \<and>
   rafIdRef (refs (onVis cHidden True tHidden ridHidden w)) = None \<and>
   pausedAtRef (refs (onVis cHidden True tHidden ridHidden w)) = tHidden \<and>
   store (onVis cVisible False tVisible ridVisible (onVis cHidden True tHidden ridHidden w)) = store w \<and>
   (\<not> wasHiddenRef (refs w) \<longrightarrow> onVis cVisible False tVisible ridVisible w = w)"
  by (cases "rafIdRef (refs w)")
    (auto simp: onVis_def engine_defs elapsedSec_def)

text \<open>
  Hidden at 3000 and visible at 600000: a running session restarts its phase at 600000
  with progress 0; a paused session keeps its progress of one half; a page that was never
  hidden is left alone.
\<close>

theorem onVis_soft_resume_witness:
  "c_isActive (render (startSession PatternBox 1700000000000 initialState)) \<and>
   \<not> c_isPaused (render (startSession PatternBox 1700000000000 initialState)) \<and>
   startTimeRef (refs (onVis (render (startSession PatternBox 1700000000000 initialState))
     False 600000 4 (onVis (render (startSession PatternBox 1700000000000 initialState))
       True 3000 3
       (initialWorld\<lparr>store := startSession PatternBox 1700000000000 initialState,
          refs := (initialRefs (userSettings initialState))
            \<lparr>startTimeRef := 1000, rafIdRef := Some 2, progressRef := 1 / 2\<rparr>\<rparr>)))) = 600000 \<and>
   progressRef (refs (onVis (render (startSession PatternBox 1700000000000 initialState))
     False 600000 4 (onVis (render (startSession PatternBox 1700000000000 initialState))
       True 3000 3
       (initialWorld\<lparr>store := startSession PatternBox 1700000000000 initialState,
          refs := (initialRefs (userSettings initialState))
            \<lparr>startTimeRef := 1000, rafIdRef := Some 2, progressRef := 1 / 2\<rparr>\<rparr>)))) = 0 \<and>
   c_isPaused (render (togglePause (startSession PatternBox 1700000000000 initialState))) \<and>
   progressRef (refs (onVis (render (togglePause (startSession PatternBox 1700000000000 initialState)))
     False 600000 4 (onVis (render (togglePause (startSession PatternBox 1700000000000 initialState)))
       True 3000 3
       (initialWorld\<lparr>store := togglePause (startSession PatternBox 1700000000000 initialState),
          refs := (initialRefs (userSettings initialState))
            \<lparr>startTimeRef := 1000, pausedAtRef := 2500, progressRef := 1 / 2\<rparr>\<rparr>)))) = 1 / 2 \<and>
   \<not> wasHiddenRef (refs initialWorld) \<and>
   onVis (render (startSession PatternBox 1700000000000 initialState)) False 600000 4 initialWorld
     = initialWorld"
  using
    onVis_soft_resume [where cHidden = "render (startSession PatternBox 1700000000000 initialState)"
      and cVisible = "render (startSession PatternBox 1700000000000 initialState)"
      and tHidden = 3000 and tVisible = 600000 and ridHidden = 3 and ridVisible = 4 and w =
      "initialWorld\<lparr>store := startSession PatternBox 1700000000000 initialState,
          refs := (initialRefs (userSettings initialState))
            \<lparr>startTimeRef := 1000, rafIdRef := Some 2, progressRef := 1 / 2\<rparr>\<rparr>"]
    onVis_soft_resume [where
      cHidden = "render (togglePause (startSession PatternBox 1700000000000 initialState))"
      and cVisible = "render (togglePause (startSession PatternBox 1700000000000 initialState))"
      and tHidden = 3000 and tVisible = 600000 and ridHidden = 3 and ridVisible = 4 and w =
      "initialWorld\<lparr>store := togglePause (startSession PatternBox 1700000000000 initialState),
          refs := (initialRefs (userSettings initialState))
            \<lparr>startTimeRef := 1000, pausedAtRef := 2500, progressRef := 1 / 2\<rparr>\<rparr>"]
    onVis_soft_resume [where cVisible = "render (startSession PatternBox 1700000000000 initialState)"
      and tVisible = 600000 and ridVisible = 4 and w = initialWorld]
  by (simp add: eval_defs engine_defs action_defs)

text \<open>
  C9. With a pattern that has no positive duration a frame returns normally, sets the
  progress fraction to 0, leaves no frame pending and touches neither the store nor the
  clock, and emits no cue. No frame ever fails, and after every frame the progress
  fraction lies in \<open>[0, 1]\<close>. On a valid pattern the frame computes
  \<open>max 0 (min (elapsed / max duration 0.000001) 1)\<close>, which is what the progress
  fraction holds unless the frame crossed a phase boundary and reset it to 0. The
  denominator is strictly positive, so the fraction is well defined for a phase of
  duration 0 or less, and it is 0 for a negative elapsed time. Times and durations are
  real numbers here.
\<close>

theorem loop_failsafe_progress_bounds:
  "(\<not> isPatternValid (c_currentPattern c) \<longrightarrow>
      (\<exists>w'. loop c now perfNow rid w = Inr w' \<and> progressRef (refs w') = 0 \<and>
         rafIdRef (refs w') = None \<and> store w' = store w \<and>
         startTimeRef (refs w') = startTimeRef (refs w) \<and>
         filter isCue (newEvents w w') = [] \<and> EvRequestFrame rid \<notin> set (newEvents w w'))) \<and>
   (\<exists>w'. loop c now perfNow rid w = Inr w' \<and>
      0 \<le> progressRef (refs w') \<and> progressRef (refs w') \<le> 1) \<and>
   (isPatternValid (c_currentPattern c) \<longrightarrow>
      (\<exists>w'. loop c now perfNow rid w = Inr w' \<and> rafIdRef (refs w') = Some rid \<and>
         progressRef (refs w') =
           (if elapsedSec now w \<ge> timing (timings (c_currentPattern c)) (c_phase c) then 0
            else max 0 (min (elapsedSec now w /
                   max (timing (timings (c_currentPattern c)) (c_phase c)) (1 / 1000000)) 1)))) \<and>
   tickProgress e d = max 0 (min (e / max d (1 / 1000000)) 1) \<and>
   0 \<le> tickProgress e d \<and> tickProgress e d \<le> 1 \<and> 0 < denom d \<and>
   (e \<le> 0 \<longrightarrow> tickProgress e d = 0) \<and>
   (d \<le> 0 \<and> 0 < e \<longrightarrow> tickProgress e d = min (e * 1000000) 1)"
proof -
  have inv: "\<exists>w'. loop c now perfNow rid w = Inr w' \<and> progressRef (refs w') = 0 \<and>
         rafIdRef (refs w') = None \<and> store w' = store w \<and>
         startTimeRef (refs w') = startTimeRef (refs w) \<and>
         filter isCue (newEvents w w') = [] \<and> EvRequestFrame rid \<notin> set (newEvents w w')"
    if "\<not> isPatternValid (c_currentPattern c)"
    using that by (cases "rafIdRef (refs w)") (simp_all add: loop_invalid engine_defs newEvents_def)
  have val: "\<exists>w'. loop c now perfNow rid w = Inr w' \<and> rafIdRef (refs w') = Some rid \<and>
         progressRef (refs w') =
           (if elapsedSec now w \<ge> timing (timings (c_currentPattern c)) (c_phase c) then 0
            else tickProgress (elapsedSec now w) (timing (timings (c_currentPattern c)) (c_phase c)))"
    if v: "isPatternValid (c_currentPattern c)"
  proof (cases "elapsedSec now w \<ge> timing (timings (c_currentPattern c)) (c_phase c)")
    case True
    obtain q where q: "nextPhaseSkipZero (c_phase c) (c_currentPattern c) = Inr q"
      using v nextPhaseSkipZero_valid by blast
    obtain w' where w': "loop c now perfNow rid w = Inr w'" using loop_total by blast
    from loop_cross_events(3) [OF v True q w'] w' True show ?thesis by simp
  next
    case False
    with v show ?thesis by (simp add: loop_stay engine_defs)
  qed
  have bnd: "\<exists>w'. loop c now perfNow rid w = Inr w' \<and>
      0 \<le> progressRef (refs w') \<and> progressRef (refs w') \<le> 1"
  proof (cases "isPatternValid (c_currentPattern c)")
    case True
    from val [OF True] show ?thesis using tickProgress_bounds by (auto split: if_splits)
  next
    case False
    from inv [OF False] show ?thesis by auto
  qed
  have tp: "tickProgress e d = max 0 (min (e / max d (1 / 1000000)) 1)"
    by (simp add: tickProgress_def denom_def)
  have neg: "tickProgress e d = 0" if "e \<le> 0"
  proof -
    have "e / denom d \<le> 0" using that denom_pos [of d] by (simp add: divide_le_0_iff)
    then show ?thesis by (simp add: tickProgress_def)
  qed
  have zero: "tickProgress e d = min (e * 1000000) 1" if "d \<le> 0 \<and> 0 < e"
    using that by (simp add: tickProgress_def denom_def max_def)
  have val': "isPatternValid (c_currentPattern c) \<longrightarrow>
      (\<exists>w'. loop c now perfNow rid w = Inr w' \<and> rafIdRef (refs w') = Some rid \<and>
         progressRef (refs w') =
           (if elapsedSec now w \<ge> timing (timings (c_currentPattern c)) (c_phase c) then 0
            else max 0 (min (elapsedSec now w /
                   max (timing (timings (c_currentPattern c)) (c_phase c)) (1 / 1000000)) 1)))"
    using val unfolding tickProgress_def denom_def by blast
  have inv': "\<not> isPatternValid (c_currentPattern c) \<longrightarrow>
      (\<exists>w'. loop c now perfNow rid w = Inr w' \<and> progressRef (refs w') = 0 \<and>
         rafIdRef (refs w') = None \<and> store w' = store w \<and>
         startTimeRef (refs w') = startTimeRef (refs w) \<and>
         filter isCue (newEvents w w') = [] \<and> EvRequestFrame rid \<notin> set (newEvents w w'))"
    using inv by blast
  have neg': "e \<le> 0 \<longrightarrow> tickProgress e d = 0" using neg by blast
  have zero': "d \<le> 0 \<and> 0 < e \<longrightarrow> tickProgress e d = min (e * 1000000) 1" using zero by blast
  show ?thesis
    using inv' bnd val' tp tickProgress_bounds [of e d] denom_pos [of d] neg' zero'
    by (intro conjI) blast+
qed

text \<open>
  A pattern with all durations 0 halts the loop with progress 0; a phase of duration 0
  seen one second before its start gives progress 0; half a microsecond into a phase of
  duration 0 gives one half; two seconds into a phase of four give one half.
\<close>

theorem loop_failsafe_progress_bounds_witness:
  "\<not> isPatternValid (c_currentPattern
      \<lparr>c_isActive = True, c_isPaused = False, c_phase = Inhale,
       c_currentPattern = (BREATHING_PATTERNS PatternCalm)
         \<lparr>timings := \<lparr>inhale = 0, holdIn = 0, exhale = 0, holdOut = 0\<rparr>\<rparr>\<rparr>) \<and>
   map_sum id refs
     (loop \<lparr>c_isActive = True, c_isPaused = False, c_phase = Inhale,
            c_currentPattern = (BREATHING_PATTERNS PatternCalm)
              \<lparr>timings := \<lparr>inhale = 0, holdIn = 0, exhale = 0, holdOut = 0\<rparr>\<rparr>\<rparr>
        3000 3001 3
        (initialWorld\<lparr>refs := (initialRefs (userSettings initialState))
           \<lparr>startTimeRef := 1000, rafIdRef := Some 2, progressRef := 1 / 2\<rparr>\<rparr>)) =
     Inr ((initialRefs (userSettings initialState))\<lparr>startTimeRef := 1000\<rparr>) \<and>
   isPatternValid (c_currentPattern
      \<lparr>c_isActive = True, c_isPaused = False, c_phase = HoldIn,
       c_currentPattern = BREATHING_PATTERNS PatternCalm\<rparr>) \<and>
   map_sum id (progressRef \<circ> refs)
     (loop \<lparr>c_isActive = True, c_isPaused = False, c_phase = HoldIn,
            c_currentPattern = BREATHING_PATTERNS PatternCalm\<rparr>
        4000 4001 3
        (initialWorld\<lparr>refs := (initialRefs (userSettings initialState))
           \<lparr>startTimeRef := 5000, rafIdRef := Some 2, progressRef := 1 / 2\<rparr>\<rparr>)) = Inr 0 \<and>
   (- 1 :: real) \<le> 0 \<and> tickProgress (- 1) 0 = 0 \<and>
   (0 :: real) \<le> 0 \<and> (0 :: real) < 1 / 2000000 \<and> tickProgress (1 / 2000000) 0 = 1 / 2 \<and>
   tickProgress 2 4 = 1 / 2"
  using
    loop_failsafe_progress_bounds [where c =
      "\<lparr>c_isActive = True, c_isPaused = False, c_phase = Inhale,
        c_currentPattern = (BREATHING_PATTERNS PatternCalm)
          \<lparr>timings := \<lparr>inhale = 0, holdIn = 0, exhale = 0, holdOut = 0\<rparr>\<rparr>\<rparr>"
      and now = 3000 and perfNow = 3001 and rid = 3 and e = "- 1" and d = 0 and w =
      "initialWorld\<lparr>refs := (initialRefs (userSettings initialState))
           \<lparr>startTimeRef := 1000, rafIdRef := Some 2, progressRef := 1 / 2\<rparr>\<rparr>"]
    loop_failsafe_progress_bounds [where c =
      "\<lparr>c_isActive = True, c_isPaused = False, c_phase = HoldIn,
        c_currentPattern = BREATHING_PATTERNS PatternCalm\<rparr>"
      and now = 4000 and perfNow = 4001 and rid = 3 and e = "1 / 2000000" and d = 0 and w =
      "initialWorld\<lparr>refs := (initialRefs (userSettings initialState))
           \<lparr>startTimeRef := 5000, rafIdRef := Some 2, progressRef := 1 / 2\<rparr>\<rparr>"]
  by (simp add: eval_defs engine_defs action_defs)

end
